theory Spec2Isabelle
  imports Main
begin

section \<open>Data model\<close>

text \<open>
  The four tables of \<^verbatim>\<open>src/config/supabase.ts\<close> (type \<^verbatim>\<open>Database\<close>), one record per
  \<^verbatim>\<open>Row\<close> type. Column names carry a one-letter prefix because the tables share column
  names. Timestamps (ISO strings in the source, compared by the database as instants)
  are integers; a nullable column is an option.
\<close>

type_synonym timestamp = int

record workspace =
  w_id :: string
  w_name :: string
  w_user_id :: string
  w_image_id :: "string option"
  w_invite_code :: string
  w_created_at :: timestamp
  w_updated_at :: timestamp

record project =
  p_id :: string
  p_name :: string
  p_description :: "string option"
  p_workspace_id :: string
  p_image_id :: "string option"
  p_created_at :: timestamp
  p_updated_at :: timestamp

record task =
  t_id :: string
  t_name :: string
  t_description :: "string option"
  t_status :: string
  t_workspace_id :: string
  t_project_id :: string
  t_assignee_id :: string
  t_due_date :: "timestamp option"
  t_position :: int
  t_created_at :: timestamp
  t_updated_at :: timestamp

record member =
  m_id :: string
  m_user_id :: string
  m_workspace_id :: string
  m_role :: string
  m_created_at :: timestamp
  m_updated_at :: timestamp

text \<open>
  The state the handlers act on: the four tables (\<^verbatim>\<open>TABLES\<close>) in insertion order and the
  keys held by the storage bucket \<^verbatim>\<open>BUCKETS.IMAGES\<close>.
\<close>

record store =
  workspaces :: "workspace list"
  projects :: "project list"
  tasks :: "task list"
  members :: "member list"
  images :: "string list"

text \<open>
  Modelled from the spec: the enumerations \<^verbatim>\<open>MemberRole\<close> (\<^verbatim>\<open>@/features/members/types\<close>)
  and \<^verbatim>\<open>TaskStatus\<close> (\<^verbatim>\<open>@/features/tasks/types\<close>) are imported by the route files but are
  not among the sources. The spec names the roles member and admin and the status done;
  the values are the ones of the columns' enumerations in \<^verbatim>\<open>SUPABASE_SETUP.md\<close>.
\<close>

definition MemberRole_ADMIN :: string where
  "MemberRole_ADMIN = ''ADMIN''"

definition MemberRole_MEMBER :: string where
  "MemberRole_MEMBER = ''MEMBER''"

definition TaskStatus_DONE :: string where
  "TaskStatus_DONE = ''DONE''"

section \<open>The request's environment\<close>

text \<open>
  Every awaited call on the database or the storage client is a call site. A request
  executes each site at most once, so a request's backend failures are given by the
  sites that fail, with the message of the error.
\<close>

datatype month = ThisMonth | LastMonth

datatype metric = Total | Assigned | Incomplete | Completed | Overdue

datatype call =
    GetMember
  | SelectWorkspace
  | SelectWorkspaceImage
  | SelectProjectImages
  | InsertWorkspace
  | InsertMember
  | UpdateWorkspace
  | DeleteWorkspace
  | SelectProject
  | SelectProjects
  | InsertProject
  | UpdateProject
  | DeleteProject
  | StorageUpload
  | StorageRemove
  | CountTasks month metric

text \<open>
  What a handler reads from outside the store: the clock (\<^verbatim>\<open>new Date()\<close>, and the
  database's \<^verbatim>\<open>NOW()\<close>), the failing call sites, the identifiers the database generates
  for inserted rows, \<^verbatim>\<open>crypto.randomUUID()\<close>, the result of \<^verbatim>\<open>generateInviteCode(6)\<close>
  (\<^verbatim>\<open>@/lib/utils\<close>, not among the sources), the storage client's \<^verbatim>\<open>getPublicUrl\<close>, and the
  calendar functions of \<^verbatim>\<open>date-fns\<close>.
\<close>

record env =
  now :: timestamp
  faults :: "call \<Rightarrow> string option"
  generated_id :: "call \<Rightarrow> string"
  randomUUID :: string
  generateInviteCode :: string
  getPublicUrl :: "string \<Rightarrow> string"
  startOfMonth :: "timestamp \<Rightarrow> timestamp"
  endOfMonth :: "timestamp \<Rightarrow> timestamp"
  subMonths :: "timestamp \<Rightarrow> nat \<Rightarrow> timestamp"

section \<open>The database and storage clients\<close>

text \<open>
  A client call resolves to \<^verbatim>\<open>{data, error}\<close>: \<open>Inl\<close> carries the error's message,
  \<open>Inr\<close> the data. The query builder's filters are list filters over a table.
\<close>

definition eq :: "('r \<Rightarrow> 'v) \<Rightarrow> 'v \<Rightarrow> 'r list \<Rightarrow> 'r list" where
  "eq col v rows = filter (\<lambda>r. col r = v) rows"

definition neq :: "('r \<Rightarrow> 'v) \<Rightarrow> 'v \<Rightarrow> 'r list \<Rightarrow> 'r list" where
  "neq col v rows = filter (\<lambda>r. col r \<noteq> v) rows"

definition gte :: "('r \<Rightarrow> timestamp) \<Rightarrow> timestamp \<Rightarrow> 'r list \<Rightarrow> 'r list" where
  "gte col v rows = filter (\<lambda>r. v \<le> col r) rows"

definition lte :: "('r \<Rightarrow> timestamp) \<Rightarrow> timestamp \<Rightarrow> 'r list \<Rightarrow> 'r list" where
  "lte col v rows = filter (\<lambda>r. col r \<le> v) rows"

text \<open>A comparison with a NULL column is not true, so the row is filtered out.\<close>

definition lt :: "('r \<Rightarrow> timestamp option) \<Rightarrow> timestamp \<Rightarrow> 'r list \<Rightarrow> 'r list" where
  "lt col v rows = filter (\<lambda>r. case col r of None \<Rightarrow> False | Some d \<Rightarrow> d < v) rows"

text \<open>\<^verbatim>\<open>.single()\<close>: exactly one row, or an error.\<close>

fun single :: "'r list \<Rightarrow> string + 'r" where
  "single [r] = Inr r"
| "single rows = Inl ''JSON object requested, multiple (or no) rows returned''"

text \<open>A read at call site \<open>c\<close>: the site's failure, or the rows.\<close>

definition select :: "env \<Rightarrow> call \<Rightarrow> 'r list \<Rightarrow> string + 'r list" where
  "select e c rows = (case faults e c of Some msg \<Rightarrow> Inl msg | None \<Rightarrow> Inr rows)"

definition select_single :: "env \<Rightarrow> call \<Rightarrow> 'r list \<Rightarrow> string + 'r" where
  "select_single e c rows = (case faults e c of Some msg \<Rightarrow> Inl msg | None \<Rightarrow> single rows)"

text \<open>
  \<^verbatim>\<open>select('*', { count: 'exact', head: true })\<close>: the number of rows, \<^verbatim>\<open>null\<close> when the
  query fails. The handlers read \<^verbatim>\<open>count\<close> only.
\<close>

definition count :: "env \<Rightarrow> call \<Rightarrow> 'r list \<Rightarrow> nat option" where
  "count e c rows = (case faults e c of Some msg \<Rightarrow> None | None \<Rightarrow> Some (length rows))"

text \<open>
  Writes keep the constraints of the schema in \<^verbatim>\<open>SUPABASE_SETUP.md\<close>: primary keys,
  \<^verbatim>\<open>invite_code ... UNIQUE\<close>, \<^verbatim>\<open>UNIQUE(user_id, workspace_id)\<close>, the foreign keys with
  \<^verbatim>\<open>ON DELETE CASCADE\<close>, and the \<^verbatim>\<open>updated_at\<close> triggers. A failed write leaves the store
  as it was. The row-level policies of that guide are not part of the model: the
  handlers are verified over the tables as the queries address them.
\<close>

definition insert_workspace ::
  "env \<Rightarrow> store \<Rightarrow> string \<Rightarrow> string \<Rightarrow> string option \<Rightarrow> string \<Rightarrow> string + (workspace \<times> store)" where
  "insert_workspace e s name user_id image_id invite_code =
     (case faults e InsertWorkspace of
        Some msg \<Rightarrow> Inl msg
      | None \<Rightarrow>
          let row = \<lparr>w_id = generated_id e InsertWorkspace, w_name = name, w_user_id = user_id,
                     w_image_id = image_id, w_invite_code = invite_code,
                     w_created_at = now e, w_updated_at = now e\<rparr>
          in if w_id row \<in> set (map w_id (workspaces s))
             then Inl ''duplicate key value violates unique constraint workspaces_pkey''
             else if invite_code \<in> set (map w_invite_code (workspaces s))
             then Inl ''duplicate key value violates unique constraint workspaces_invite_code_key''
             else Inr (row, s\<lparr>workspaces := workspaces s @ [row]\<rparr>))"

definition insert_member :: "env \<Rightarrow> store \<Rightarrow> string \<Rightarrow> string \<Rightarrow> string \<Rightarrow> string + store" where
  "insert_member e s user_id workspace_id role =
     (case faults e InsertMember of
        Some msg \<Rightarrow> Inl msg
      | None \<Rightarrow>
          let row = \<lparr>m_id = generated_id e InsertMember, m_user_id = user_id,
                     m_workspace_id = workspace_id, m_role = role,
                     m_created_at = now e, m_updated_at = now e\<rparr>
          in if m_id row \<in> set (map m_id (members s))
             then Inl ''duplicate key value violates unique constraint members_pkey''
             else if workspace_id \<notin> set (map w_id (workspaces s))
             then Inl ''insert or update on table members violates foreign key constraint''
             else if eq m_user_id user_id (eq m_workspace_id workspace_id (members s)) \<noteq> []
             then Inl ''duplicate key value violates unique constraint members_user_id_workspace_id_key''
             else Inr (s\<lparr>members := members s @ [row]\<rparr>))"

text \<open>
  \<^verbatim>\<open>.update(values).eq('id', id).select().single()\<close> on the workspaces table. A key whose
  value is \<^verbatim>\<open>undefined\<close> is not sent, so that column keeps its value (\<open>None\<close> below).
  Another row holding the new invite code violates the unique constraint. When the
  statement does not return exactly one row the request is an error and the update is
  not committed.
\<close>

record workspace_update =
  set_name :: "string option"
  set_image_id :: "string option"
  set_invite_code :: "string option"

definition apply_workspace_update :: "env \<Rightarrow> workspace_update \<Rightarrow> workspace \<Rightarrow> workspace" where
  "apply_workspace_update e u w =
     w\<lparr>w_name := (case set_name u of None \<Rightarrow> w_name w | Some n \<Rightarrow> n),
       w_image_id := (case set_image_id u of None \<Rightarrow> w_image_id w | Some i \<Rightarrow> Some i),
       w_invite_code := (case set_invite_code u of None \<Rightarrow> w_invite_code w | Some c \<Rightarrow> c),
       w_updated_at := now e\<rparr>"

definition update_workspace ::
  "env \<Rightarrow> store \<Rightarrow> workspace_update \<Rightarrow> string \<Rightarrow> string + (workspace \<times> store)" where
  "update_workspace e s u workspaceId =
     (case faults e UpdateWorkspace of
        Some msg \<Rightarrow> Inl msg
      | None \<Rightarrow>
          let clash = (case set_invite_code u of
                         None \<Rightarrow> False
                       | Some c \<Rightarrow> eq w_id workspaceId (workspaces s) \<noteq> [] \<and>
                                  c \<in> set (map w_invite_code (neq w_id workspaceId (workspaces s))));
              rows = map (\<lambda>w. if w_id w = workspaceId then apply_workspace_update e u w else w)
                       (workspaces s)
          in if clash
             then Inl ''duplicate key value violates unique constraint workspaces_invite_code_key''
             else (case single (eq w_id workspaceId rows) of
                     Inl msg \<Rightarrow> Inl msg
                   | Inr w \<Rightarrow> Inr (w, s\<lparr>workspaces := rows\<rparr>)))"

text \<open>
  \<^verbatim>\<open>.delete().eq('id', id)\<close> on the workspaces table, with the cascade to the members,
  projects and tasks of the workspace (and to the tasks of its projects).
\<close>

definition delete_workspace :: "env \<Rightarrow> store \<Rightarrow> string \<Rightarrow> string + store" where
  "delete_workspace e s workspaceId =
     (case faults e DeleteWorkspace of
        Some msg \<Rightarrow> Inl msg
      | None \<Rightarrow>
          let gone = map p_id (eq p_workspace_id workspaceId (projects s))
          in Inr (s\<lparr>workspaces := neq w_id workspaceId (workspaces s),
                    members := neq m_workspace_id workspaceId (members s),
                    projects := neq p_workspace_id workspaceId (projects s),
                    tasks := filter (\<lambda>t. t_project_id t \<notin> set gone)
                               (neq t_workspace_id workspaceId (tasks s))\<rparr>))"

text \<open>
  The storage bucket: \<^verbatim>\<open>upload\<close> refuses a key that exists; the result of \<^verbatim>\<open>remove\<close> is
  never read by the handlers, so a failed removal only leaves the keys in place.
\<close>

definition storage_upload :: "env \<Rightarrow> store \<Rightarrow> string \<Rightarrow> string + (string \<times> store)" where
  "storage_upload e s key =
     (case faults e StorageUpload of
        Some msg \<Rightarrow> Inl msg
      | None \<Rightarrow>
          if key \<in> set (images s) then Inl ''The resource already exists''
          else Inr (key, s\<lparr>images := images s @ [key]\<rparr>))"

definition storage_remove :: "env \<Rightarrow> store \<Rightarrow> string list \<Rightarrow> store" where
  "storage_remove e s keys =
     (case faults e StorageRemove of
        Some msg \<Rightarrow> s
      | None \<Rightarrow> s\<lparr>images := filter (\<lambda>k. k \<notin> set keys) (images s)\<rparr>)"

text \<open>The projects table: insert, update and delete, as for workspaces.\<close>

definition insert_project ::
  "env \<Rightarrow> store \<Rightarrow> string \<Rightarrow> string option \<Rightarrow> string \<Rightarrow> string + (project \<times> store)" where
  "insert_project e s name image_id workspace_id =
     (case faults e InsertProject of
        Some msg \<Rightarrow> Inl msg
      | None \<Rightarrow>
          let row = \<lparr>p_id = generated_id e InsertProject, p_name = name, p_description = None,
                     p_workspace_id = workspace_id, p_image_id = image_id,
                     p_created_at = now e, p_updated_at = now e\<rparr>
          in if p_id row \<in> set (map p_id (projects s))
             then Inl ''duplicate key value violates unique constraint projects_pkey''
             else if workspace_id \<notin> set (map w_id (workspaces s))
             then Inl ''insert or update on table projects violates foreign key constraint''
             else Inr (row, s\<lparr>projects := projects s @ [row]\<rparr>))"

definition apply_project_update ::
  "env \<Rightarrow> string option \<Rightarrow> string option \<Rightarrow> project \<Rightarrow> project" where
  "apply_project_update e name image_id p =
     p\<lparr>p_name := (case name of None \<Rightarrow> p_name p | Some n \<Rightarrow> n),
       p_image_id := (case image_id of None \<Rightarrow> p_image_id p | Some i \<Rightarrow> Some i),
       p_updated_at := now e\<rparr>"

definition update_project ::
  "env \<Rightarrow> store \<Rightarrow> string option \<Rightarrow> string option \<Rightarrow> string \<Rightarrow> string + (project \<times> store)" where
  "update_project e s name image_id projectId =
     (case faults e UpdateProject of
        Some msg \<Rightarrow> Inl msg
      | None \<Rightarrow>
          let rows = map (\<lambda>p. if p_id p = projectId then apply_project_update e name image_id p
                                else p) (projects s)
          in (case single (eq p_id projectId rows) of
                Inl msg \<Rightarrow> Inl msg
              | Inr p \<Rightarrow> Inr (p, s\<lparr>projects := rows\<rparr>)))"

definition delete_project :: "env \<Rightarrow> store \<Rightarrow> string \<Rightarrow> string + store" where
  "delete_project e s projectId =
     (case faults e DeleteProject of
        Some msg \<Rightarrow> Inl msg
      | None \<Rightarrow> Inr (s\<lparr>projects := neq p_id projectId (projects s),
                        tasks := neq t_project_id projectId (tasks s)\<rparr>))"

text \<open>
  \<^verbatim>\<open>.order('created_at', { ascending: false })\<close>; the database leaves the order of rows
  with equal keys open, here it is the one of a stable sort.
\<close>

definition order_desc :: "('r \<Rightarrow> timestamp) \<Rightarrow> 'r list \<Rightarrow> 'r list" where
  "order_desc col rows = rev (sort_key col rows)"

section \<open>The authorization gate\<close>

text \<open>
  \<^verbatim>\<open>getMember\<close> (\<^verbatim>\<open>@/features/members/utils\<close>): the single member row of the user in the
  workspace; \<^verbatim>\<open>null\<close> whenever the query reports an error.
\<close>

definition getMember :: "env \<Rightarrow> store \<Rightarrow> string \<Rightarrow> string \<Rightarrow> member option" where
  "getMember e s workspaceId userId =
     (case select_single e GetMember
             (eq m_user_id userId (eq m_workspace_id workspaceId (members s))) of
        Inl error \<Rightarrow> None
      | Inr member \<Rightarrow> Some member)"

section \<open>Requests and responses\<close>

text \<open>
  The \<^verbatim>\<open>image\<close> field of a validated form: a \<^verbatim>\<open>File\<close> (name and content type), a string,
  or absent.
\<close>

datatype form_image = File string string | Text string | Undefined

text \<open>\<^verbatim>\<open>image.name.split('.').at(-1) ?? 'png'\<close>: the text after the last dot (\<^verbatim>\<open>split\<close>
  never returns an empty array, so the default is never taken).\<close>

definition fileExt :: "string \<Rightarrow> string" where
  "fileExt name = rev (takeWhile (\<lambda>c. c \<noteq> CHR ''.'') (rev name))"

definition fileName :: "env \<Rightarrow> string \<Rightarrow> string" where
  "fileName e name = randomUUID e @ ''.'' @ fileExt name"

text \<open>\<^verbatim>\<open>if (row.image_id)\<close>: the key when it is neither \<^verbatim>\<open>null\<close> nor the empty string.\<close>

fun truthy :: "string option \<Rightarrow> string option" where
  "truthy None = None"
| "truthy (Some k) = (if k = [] then None else Some k)"

text \<open>\<^verbatim>\<open>count || 0\<close>.\<close>

fun or_zero :: "nat option \<Rightarrow> int" where
  "or_zero None = 0"
| "or_zero (Some n) = int n"

record analytics =
  taskCount :: int
  taskDifference :: int
  assignedTaskCount :: int
  assignedTaskDifference :: int
  completedTaskCount :: int
  completedTaskDifference :: int
  incompleteTaskCount :: int
  incompleteTaskDifference :: int
  overdueTaskCount :: int
  overdueTaskDifference :: int

text \<open>The JSON envelope: \<^verbatim>\<open>{ error }\<close> or \<^verbatim>\<open>{ data }\<close>, with the shapes the handlers return.\<close>

datatype payload =
    PWorkspace workspace
  | PWorkspaceUrl workspace "string option"
  | PInfo string string
  | PId string
  | PAnalytics analytics
  | PProject project
  | PProjectUrl project "string option"
  | PDocuments "(project \<times> string option) list" nat
  | PDeleted string string

datatype body = Error string | Data payload

record response =
  status :: nat
  body :: body

text \<open>\<^verbatim>\<open>ctx.json(value, status)\<close>; the status defaults to 200.\<close>

definition json_error :: "string \<Rightarrow> nat \<Rightarrow> response" where
  "json_error msg code = \<lparr>status = code, body = Error msg\<rparr>"

definition json_data :: "payload \<Rightarrow> response" where
  "json_data p = \<lparr>status = 200, body = Data p\<rparr>"

text \<open>
  What a request leaves behind: the response, the store after it, and the call sites
  it executed, in order.
\<close>

record outcome =
  reply :: response
  final :: store
  trace :: "call list"

definition unauthorized :: "store \<Rightarrow> call list \<Rightarrow> outcome" where
  "unauthorized s tr = \<lparr>reply = json_error ''Unauthorized.'' 401, final = s, trace = tr\<rparr>"

section \<open>The workspaces router\<close>

text \<open>
  \<^verbatim>\<open>src/features/workspaces/server/route.ts\<close>. Each handler runs after
  \<^verbatim>\<open>sessionMiddleware\<close>, so \<open>user\<close> is the id of the authenticated caller, and after the
  validators, so the form and JSON fields are the validated ones.
\<close>

text \<open>\<^verbatim>\<open>POST /\<close>\<close>

definition workspaces_post :: "env \<Rightarrow> store \<Rightarrow> string \<Rightarrow> string \<Rightarrow> form_image \<Rightarrow> outcome" where
  "workspaces_post e s user name img =
     (case (case img of
              File fname ftype \<Rightarrow>
                (case storage_upload e s (fileName e fname) of
                   Inl uploadError \<Rightarrow> Inl uploadError
                 | Inr (path, s1) \<Rightarrow> Inr (Some path, s1, [StorageUpload]))
            | Text v \<Rightarrow> Inr (Some v, s, [])
            | Undefined \<Rightarrow> Inr (None, s, [])) of
        Inl uploadError \<Rightarrow>
          \<lparr>reply = json_error uploadError 500, final = s, trace = [StorageUpload]\<rparr>
      | Inr (uploadedImageId, s1, tr) \<Rightarrow>
          (case insert_workspace e s1 name user uploadedImageId (generateInviteCode e) of
             Inl workspaceError \<Rightarrow>
               \<lparr>reply = json_error workspaceError 500, final = s1,
                trace = tr @ [InsertWorkspace]\<rparr>
           | Inr (workspace, s2) \<Rightarrow>
               (case insert_member e s2 user (w_id workspace) MemberRole_ADMIN of
                  Inl memberError \<Rightarrow>
                    \<lparr>reply = json_error memberError 500, final = s2,
                     trace = tr @ [InsertWorkspace, InsertMember]\<rparr>
                | Inr s3 \<Rightarrow>
                    \<lparr>reply = json_data (PWorkspace workspace), final = s3,
                     trace = tr @ [InsertWorkspace, InsertMember]\<rparr>)))"

text \<open>\<^verbatim>\<open>GET /:workspaceId\<close>\<close>

definition workspaces_get :: "env \<Rightarrow> store \<Rightarrow> string \<Rightarrow> string \<Rightarrow> outcome" where
  "workspaces_get e s user workspaceId =
     (case getMember e s workspaceId user of
        None \<Rightarrow> unauthorized s [GetMember]
      | Some member \<Rightarrow>
          (case select_single e SelectWorkspace (eq w_id workspaceId (workspaces s)) of
             Inl error \<Rightarrow>
               \<lparr>reply = json_error error 500, final = s, trace = [GetMember, SelectWorkspace]\<rparr>
           | Inr workspace \<Rightarrow>
               \<lparr>reply = json_data (PWorkspaceUrl workspace
                          (map_option (getPublicUrl e) (truthy (w_image_id workspace)))),
                final = s, trace = [GetMember, SelectWorkspace]\<rparr>))"

text \<open>\<^verbatim>\<open>GET /:workspaceId/info\<close>: the handler reads neither the user nor the members table.\<close>

definition workspaces_info :: "env \<Rightarrow> store \<Rightarrow> string \<Rightarrow> outcome" where
  "workspaces_info e s workspaceId =
     (case select_single e SelectWorkspace (eq w_id workspaceId (workspaces s)) of
        Inl error \<Rightarrow> \<lparr>reply = json_error error 500, final = s, trace = [SelectWorkspace]\<rparr>
      | Inr workspace \<Rightarrow>
          \<lparr>reply = json_data (PInfo (w_id workspace) (w_name workspace)), final = s,
           trace = [SelectWorkspace]\<rparr>)"

text \<open>\<^verbatim>\<open>PATCH /:workspaceId\<close>; \<open>name\<close> is optional in an update.\<close>

definition workspaces_patch ::
  "env \<Rightarrow> store \<Rightarrow> string \<Rightarrow> string \<Rightarrow> string option \<Rightarrow> form_image \<Rightarrow> outcome" where
  "workspaces_patch e s user workspaceId name img =
     (case getMember e s workspaceId user of
        None \<Rightarrow> unauthorized s [GetMember]
      | Some member \<Rightarrow>
          if m_role member \<noteq> MemberRole_ADMIN then unauthorized s [GetMember]
          else
            (case (case img of
                     File fname ftype \<Rightarrow>
                       (case storage_upload e s (fileName e fname) of
                          Inl uploadError \<Rightarrow> Inl uploadError
                        | Inr (path, s1) \<Rightarrow>
                            (case select_single e SelectWorkspaceImage
                                    (eq w_id workspaceId (workspaces s1)) of
                               Inl error \<Rightarrow>
                                 Inr (Some path, s1, [StorageUpload, SelectWorkspaceImage])
                             | Inr existingWorkspace \<Rightarrow>
                                 (case truthy (w_image_id existingWorkspace) of
                                    None \<Rightarrow>
                                      Inr (Some path, s1, [StorageUpload, SelectWorkspaceImage])
                                  | Some old \<Rightarrow>
                                      Inr (Some path, storage_remove e s1 [old],
                                           [StorageUpload, SelectWorkspaceImage, StorageRemove]))))
                   | Text v \<Rightarrow> Inr (None, s, [])
                   | Undefined \<Rightarrow> Inr (None, s, [])) of
               Inl uploadError \<Rightarrow>
                 \<lparr>reply = json_error uploadError 500, final = s,
                  trace = [GetMember, StorageUpload]\<rparr>
             | Inr (uploadedImageId, s2, tr) \<Rightarrow>
                 (case update_workspace e s2
                         \<lparr>set_name = name, set_image_id = uploadedImageId, set_invite_code = None\<rparr>
                         workspaceId of
                    Inl updateError \<Rightarrow>
                      \<lparr>reply = json_error updateError 500, final = s2,
                       trace = GetMember # tr @ [UpdateWorkspace]\<rparr>
                  | Inr (workspace, s3) \<Rightarrow>
                      \<lparr>reply = json_data (PWorkspace workspace), final = s3,
                       trace = GetMember # tr @ [UpdateWorkspace]\<rparr>)))"

text \<open>\<^verbatim>\<open>DELETE /:workspaceId\<close>\<close>

definition imagesToDelete :: "(string + project list) \<Rightarrow> (string + workspace) \<Rightarrow> string list" where
  "imagesToDelete projs workspace =
     (case projs of
        Inl error \<Rightarrow> []
      | Inr ps \<Rightarrow> concat (map (\<lambda>project. case truthy (p_image_id project) of
                                             None \<Rightarrow> [] | Some k \<Rightarrow> [k]) ps))
     @ (case workspace of
          Inl error \<Rightarrow> []
        | Inr w \<Rightarrow> (case truthy (w_image_id w) of None \<Rightarrow> [] | Some k \<Rightarrow> [k]))"

definition workspaces_delete :: "env \<Rightarrow> store \<Rightarrow> string \<Rightarrow> string \<Rightarrow> outcome" where
  "workspaces_delete e s user workspaceId =
     (case getMember e s workspaceId user of
        None \<Rightarrow> unauthorized s [GetMember]
      | Some member \<Rightarrow>
          if m_role member \<noteq> MemberRole_ADMIN then unauthorized s [GetMember]
          else
            let keys = imagesToDelete
                         (select e SelectProjectImages (eq p_workspace_id workspaceId (projects s)))
                         (select_single e SelectWorkspaceImage (eq w_id workspaceId (workspaces s)));
                s1 = (if keys \<noteq> [] then storage_remove e s keys else s);
                tr = [GetMember, SelectProjectImages, SelectWorkspaceImage]
                     @ (if keys \<noteq> [] then [StorageRemove] else []) @ [DeleteWorkspace]
            in (case delete_workspace e s1 workspaceId of
                  Inl error \<Rightarrow> \<lparr>reply = json_error error 500, final = s1, trace = tr\<rparr>
                | Inr s2 \<Rightarrow> \<lparr>reply = json_data (PId workspaceId), final = s2, trace = tr\<rparr>))"

text \<open>\<^verbatim>\<open>POST /:workspaceId/resetInviteCode\<close>\<close>

definition workspaces_resetInviteCode :: "env \<Rightarrow> store \<Rightarrow> string \<Rightarrow> string \<Rightarrow> outcome" where
  "workspaces_resetInviteCode e s user workspaceId =
     (case getMember e s workspaceId user of
        None \<Rightarrow> unauthorized s [GetMember]
      | Some member \<Rightarrow>
          if m_role member \<noteq> MemberRole_ADMIN then unauthorized s [GetMember]
          else
            (case update_workspace e s
                    \<lparr>set_name = None, set_image_id = None,
                     set_invite_code = Some (generateInviteCode e)\<rparr> workspaceId of
               Inl error \<Rightarrow>
                 \<lparr>reply = json_error error 500, final = s, trace = [GetMember, UpdateWorkspace]\<rparr>
             | Inr (workspace, s1) \<Rightarrow>
                 \<lparr>reply = json_data (PWorkspace workspace), final = s1,
                  trace = [GetMember, UpdateWorkspace]\<rparr>))"

text \<open>\<^verbatim>\<open>POST /:workspaceId/join\<close> with the JSON body \<^verbatim>\<open>{ code }\<close>\<close>

definition workspaces_join :: "env \<Rightarrow> store \<Rightarrow> string \<Rightarrow> string \<Rightarrow> string \<Rightarrow> outcome" where
  "workspaces_join e s user workspaceId code =
     (case getMember e s workspaceId user of
        Some member \<Rightarrow>
          \<lparr>reply = json_error ''Already a member.'' 400, final = s, trace = [GetMember]\<rparr>
      | None \<Rightarrow>
          (case select_single e SelectWorkspace (eq w_id workspaceId (workspaces s)) of
             Inl workspaceError \<Rightarrow>
               \<lparr>reply = json_error workspaceError 500, final = s,
                trace = [GetMember, SelectWorkspace]\<rparr>
           | Inr workspace \<Rightarrow>
               if w_invite_code workspace \<noteq> code
               then \<lparr>reply = json_error ''Invalid invite code.'' 400, final = s,
                     trace = [GetMember, SelectWorkspace]\<rparr>
               else
                 (case insert_member e s user workspaceId MemberRole_MEMBER of
                    Inl memberError \<Rightarrow>
                      \<lparr>reply = json_error memberError 500, final = s,
                       trace = [GetMember, SelectWorkspace, InsertMember]\<rparr>
                  | Inr s1 \<Rightarrow>
                      \<lparr>reply = json_data (PWorkspace workspace), final = s1,
                       trace = [GetMember, SelectWorkspace, InsertMember]\<rparr>)))"

text \<open>
  \<^verbatim>\<open>GET /:workspaceId/analytics\<close> and, in the projects router, \<^verbatim>\<open>GET /:projectId/analytics\<close>.
  From \<^verbatim>\<open>const now = new Date()\<close> to the response the two handlers are the same text,
  except for the first filter of every query: \<^verbatim>\<open>.eq('workspace_id', workspaceId)\<close> in one,
  \<^verbatim>\<open>.eq('project_id', projectId)\<close> in the other. \<open>scoped\<close> is the tasks table under that
  filter. The five filter chains are each written twice in the source, once with the
  bounds of this month and once with those of last month.
\<close>

definition task_query :: "task list \<Rightarrow> timestamp \<Rightarrow> timestamp \<Rightarrow> task list" where
  "task_query scoped monthStart monthEnd =
     lte t_created_at monthEnd (gte t_created_at monthStart scoped)"

definition assigned_query :: "task list \<Rightarrow> member \<Rightarrow> timestamp \<Rightarrow> timestamp \<Rightarrow> task list" where
  "assigned_query scoped member monthStart monthEnd =
     lte t_created_at monthEnd (gte t_created_at monthStart
       (eq t_assignee_id (m_id member) scoped))"

definition incomplete_query :: "task list \<Rightarrow> timestamp \<Rightarrow> timestamp \<Rightarrow> task list" where
  "incomplete_query scoped monthStart monthEnd =
     lte t_created_at monthEnd (gte t_created_at monthStart
       (neq t_status TaskStatus_DONE scoped))"

definition completed_query :: "task list \<Rightarrow> timestamp \<Rightarrow> timestamp \<Rightarrow> task list" where
  "completed_query scoped monthStart monthEnd =
     lte t_created_at monthEnd (gte t_created_at monthStart
       (eq t_status TaskStatus_DONE scoped))"

definition overdue_query :: "task list \<Rightarrow> timestamp \<Rightarrow> timestamp \<Rightarrow> timestamp \<Rightarrow> task list" where
  "overdue_query scoped now' monthStart monthEnd =
     lte t_created_at monthEnd (gte t_created_at monthStart
       (lt t_due_date now' (neq t_status TaskStatus_DONE scoped)))"

definition task_analytics :: "env \<Rightarrow> task list \<Rightarrow> member \<Rightarrow> analytics" where
  "task_analytics e scoped member =
     (let now' = now e;
          thisMonthStart = startOfMonth e now';
          thisMonthEnd = endOfMonth e now';
          lastMonthStart = startOfMonth e (subMonths e now' 1);
          lastMonthEnd = endOfMonth e (subMonths e now' 1);

          thisMonthTaskCount = count e (CountTasks ThisMonth Total)
            (task_query scoped thisMonthStart thisMonthEnd);
          lastMonthTaskCount = count e (CountTasks LastMonth Total)
            (task_query scoped lastMonthStart lastMonthEnd);
          taskCount' = or_zero thisMonthTaskCount;
          taskDifference' = taskCount' - or_zero lastMonthTaskCount;

          thisMonthAssignedTaskCount = count e (CountTasks ThisMonth Assigned)
            (assigned_query scoped member thisMonthStart thisMonthEnd);
          lastMonthAssignedTaskCount = count e (CountTasks LastMonth Assigned)
            (assigned_query scoped member lastMonthStart lastMonthEnd);
          assignedTaskCount' = or_zero thisMonthAssignedTaskCount;
          assignedTaskDifference' = assignedTaskCount' - or_zero lastMonthAssignedTaskCount;

          thisMonthIncompleteTaskCount = count e (CountTasks ThisMonth Incomplete)
            (incomplete_query scoped thisMonthStart thisMonthEnd);
          lastMonthIncompleteTaskCount = count e (CountTasks LastMonth Incomplete)
            (incomplete_query scoped lastMonthStart lastMonthEnd);
          incompleteTaskCount' = or_zero thisMonthIncompleteTaskCount;
          incompleteTaskDifference' = incompleteTaskCount' - or_zero lastMonthIncompleteTaskCount;

          thisMonthCompletedTaskCount = count e (CountTasks ThisMonth Completed)
            (completed_query scoped thisMonthStart thisMonthEnd);
          lastMonthCompletedTaskCount = count e (CountTasks LastMonth Completed)
            (completed_query scoped lastMonthStart lastMonthEnd);
          completedTaskCount' = or_zero thisMonthCompletedTaskCount;
          completedTaskDifference' = completedTaskCount' - or_zero lastMonthCompletedTaskCount;

          thisMonthOverdueTaskCount = count e (CountTasks ThisMonth Overdue)
            (overdue_query scoped now' thisMonthStart thisMonthEnd);
          lastMonthOverdueTaskCount = count e (CountTasks LastMonth Overdue)
            (overdue_query scoped now' lastMonthStart lastMonthEnd);
          overdueTaskCount' = or_zero thisMonthOverdueTaskCount;
          overdueTaskDifference' = overdueTaskCount' - or_zero lastMonthOverdueTaskCount
      in \<lparr>taskCount = taskCount',
          taskDifference = taskDifference',
          assignedTaskCount = assignedTaskCount',
          assignedTaskDifference = assignedTaskDifference',
          completedTaskCount = completedTaskCount',
          completedTaskDifference = completedTaskDifference',
          incompleteTaskCount = incompleteTaskCount',
          incompleteTaskDifference = incompleteTaskDifference',
          overdueTaskCount = overdueTaskCount',
          overdueTaskDifference = overdueTaskDifference'\<rparr>)"

text \<open>The ten count queries, in the order the handlers await them.\<close>

definition analytics_calls :: "call list" where
  "analytics_calls =
     [CountTasks ThisMonth Total, CountTasks LastMonth Total,
      CountTasks ThisMonth Assigned, CountTasks LastMonth Assigned,
      CountTasks ThisMonth Incomplete, CountTasks LastMonth Incomplete,
      CountTasks ThisMonth Completed, CountTasks LastMonth Completed,
      CountTasks ThisMonth Overdue, CountTasks LastMonth Overdue]"

definition workspaces_analytics :: "env \<Rightarrow> store \<Rightarrow> string \<Rightarrow> string \<Rightarrow> outcome" where
  "workspaces_analytics e s user workspaceId =
     (case getMember e s workspaceId user of
        None \<Rightarrow> unauthorized s [GetMember]
      | Some member \<Rightarrow>
          \<lparr>reply = json_data (PAnalytics
                     (task_analytics e (eq t_workspace_id workspaceId (tasks s)) member)),
           final = s, trace = GetMember # analytics_calls\<rparr>)"

section \<open>The projects router\<close>

text \<open>\<^verbatim>\<open>src/features/projects/server/route.ts\<close>\<close>

text \<open>\<^verbatim>\<open>POST /\<close>\<close>

definition projects_post ::
  "env \<Rightarrow> store \<Rightarrow> string \<Rightarrow> string \<Rightarrow> form_image \<Rightarrow> string \<Rightarrow> outcome" where
  "projects_post e s user name img workspaceId =
     (case getMember e s workspaceId user of
        None \<Rightarrow> unauthorized s [GetMember]
      | Some member \<Rightarrow>
          (case (case img of
                   File fname ftype \<Rightarrow>
                     (case storage_upload e s (fileName e fname) of
                        Inl uploadError \<Rightarrow> Inl uploadError
                      | Inr (path, s1) \<Rightarrow> Inr (Some path, s1, [StorageUpload]))
                 | Text v \<Rightarrow> Inr (Some v, s, [])
                 | Undefined \<Rightarrow> Inr (None, s, [])) of
             Inl uploadError \<Rightarrow>
               \<lparr>reply = json_error uploadError 500, final = s,
                trace = [GetMember, StorageUpload]\<rparr>
           | Inr (uploadedImageId, s1, tr) \<Rightarrow>
               (case insert_project e s1 name uploadedImageId workspaceId of
                  Inl projectError \<Rightarrow>
                    \<lparr>reply = json_error projectError 500, final = s1,
                     trace = GetMember # tr @ [InsertProject]\<rparr>
                | Inr (project, s2) \<Rightarrow>
                    \<lparr>reply = json_data (PProject project), final = s2,
                     trace = GetMember # tr @ [InsertProject]\<rparr>)))"

text \<open>\<^verbatim>\<open>GET /?workspaceId=\<close>. The query asks for no count, so \<^verbatim>\<open>count\<close> is \<^verbatim>\<open>null\<close> and
  \<^verbatim>\<open>total: count || 0\<close> is 0.\<close>

definition projects_list :: "env \<Rightarrow> store \<Rightarrow> string \<Rightarrow> string \<Rightarrow> outcome" where
  "projects_list e s user workspaceId =
     (case getMember e s workspaceId user of
        None \<Rightarrow> unauthorized s [GetMember]
      | Some member \<Rightarrow>
          (case select e SelectProjects
                  (order_desc p_created_at (eq p_workspace_id workspaceId (projects s))) of
             Inl error \<Rightarrow>
               \<lparr>reply = json_error error 500, final = s, trace = [GetMember, SelectProjects]\<rparr>
           | Inr projs \<Rightarrow>
               \<lparr>reply = json_data (PDocuments
                          (map (\<lambda>project. (project, map_option (getPublicUrl e)
                                                       (truthy (p_image_id project)))) projs)
                          0),
                final = s, trace = [GetMember, SelectProjects]\<rparr>))"

text \<open>\<^verbatim>\<open>GET /:projectId\<close>\<close>

definition projects_get :: "env \<Rightarrow> store \<Rightarrow> string \<Rightarrow> string \<Rightarrow> outcome" where
  "projects_get e s user projectId =
     (case select_single e SelectProject (eq p_id projectId (projects s)) of
        Inl projectError \<Rightarrow>
          \<lparr>reply = json_error projectError 500, final = s, trace = [SelectProject]\<rparr>
      | Inr project \<Rightarrow>
          (case getMember e s (p_workspace_id project) user of
             None \<Rightarrow> unauthorized s [SelectProject, GetMember]
           | Some member \<Rightarrow>
               \<lparr>reply = json_data (PProjectUrl project
                          (map_option (getPublicUrl e) (truthy (p_image_id project)))),
                final = s, trace = [SelectProject, GetMember]\<rparr>))"

text \<open>\<^verbatim>\<open>PATCH /:projectId\<close>\<close>

definition projects_patch ::
  "env \<Rightarrow> store \<Rightarrow> string \<Rightarrow> string \<Rightarrow> string option \<Rightarrow> form_image \<Rightarrow> outcome" where
  "projects_patch e s user projectId name img =
     (case select_single e SelectProject (eq p_id projectId (projects s)) of
        Inl getError \<Rightarrow>
          \<lparr>reply = json_error getError 500, final = s, trace = [SelectProject]\<rparr>
      | Inr existingProject \<Rightarrow>
          (case getMember e s (p_workspace_id existingProject) user of
             None \<Rightarrow> unauthorized s [SelectProject, GetMember]
           | Some member \<Rightarrow>
               (case (case img of
                        File fname ftype \<Rightarrow>
                          (case storage_upload e s (fileName e fname) of
                             Inl uploadError \<Rightarrow> Inl uploadError
                           | Inr (path, s1) \<Rightarrow>
                               (case truthy (p_image_id existingProject) of
                                  None \<Rightarrow> Inr (Some path, s1, [StorageUpload])
                                | Some old \<Rightarrow>
                                    Inr (Some path, storage_remove e s1 [old],
                                         [StorageUpload, StorageRemove])))
                      | Text v \<Rightarrow> Inr (None, s, [])
                      | Undefined \<Rightarrow> Inr (None, s, [])) of
                  Inl uploadError \<Rightarrow>
                    \<lparr>reply = json_error uploadError 500, final = s,
                     trace = [SelectProject, GetMember, StorageUpload]\<rparr>
                | Inr (uploadedImageId, s2, tr) \<Rightarrow>
                    (case update_project e s2 name uploadedImageId projectId of
                       Inl updateError \<Rightarrow>
                         \<lparr>reply = json_error updateError 500, final = s2,
                          trace = [SelectProject, GetMember] @ tr @ [UpdateProject]\<rparr>
                     | Inr (project, s3) \<Rightarrow>
                         \<lparr>reply = json_data (PProject project), final = s3,
                          trace = [SelectProject, GetMember] @ tr @ [UpdateProject]\<rparr>))))"

text \<open>\<^verbatim>\<open>DELETE /:projectId\<close>\<close>

definition projects_delete :: "env \<Rightarrow> store \<Rightarrow> string \<Rightarrow> string \<Rightarrow> outcome" where
  "projects_delete e s user projectId =
     (case select_single e SelectProject (eq p_id projectId (projects s)) of
        Inl getError \<Rightarrow>
          \<lparr>reply = json_error getError 500, final = s, trace = [SelectProject]\<rparr>
      | Inr existingProject \<Rightarrow>
          (case getMember e s (p_workspace_id existingProject) user of
             None \<Rightarrow> unauthorized s [SelectProject, GetMember]
           | Some member \<Rightarrow>
               let (s1, tr) = (case truthy (p_image_id existingProject) of
                                 None \<Rightarrow> (s, [])
                               | Some old \<Rightarrow> (storage_remove e s [old], [StorageRemove]))
               in (case delete_project e s1 projectId of
                     Inl deleteError \<Rightarrow>
                       \<lparr>reply = json_error deleteError 500, final = s1,
                        trace = [SelectProject, GetMember] @ tr @ [DeleteProject]\<rparr>
                   | Inr s2 \<Rightarrow>
                       \<lparr>reply = json_data (PDeleted (p_id existingProject)
                                  (p_workspace_id existingProject)),
                        final = s2,
                        trace = [SelectProject, GetMember] @ tr @ [DeleteProject]\<rparr>)))"

text \<open>\<^verbatim>\<open>GET /:projectId/analytics\<close>\<close>

definition projects_analytics :: "env \<Rightarrow> store \<Rightarrow> string \<Rightarrow> string \<Rightarrow> outcome" where
  "projects_analytics e s user projectId =
     (case select_single e SelectProject (eq p_id projectId (projects s)) of
        Inl projectError \<Rightarrow>
          \<lparr>reply = json_error projectError 500, final = s, trace = [SelectProject]\<rparr>
      | Inr project \<Rightarrow>
          (case getMember e s (p_workspace_id project) user of
             None \<Rightarrow> unauthorized s [SelectProject, GetMember]
           | Some member \<Rightarrow>
               \<lparr>reply = json_data (PAnalytics
                          (task_analytics e (eq t_project_id projectId (tasks s)) member)),
                final = s, trace = [SelectProject, GetMember] @ analytics_calls\<rparr>))"

section \<open>The statements of the specification\<close>

text \<open>The member rows of a user in a workspace: the rows \<open>getMember\<close> queries.\<close>

definition member_rows :: "store \<Rightarrow> string \<Rightarrow> string \<Rightarrow> member list" where
  "member_rows s workspaceId userId =
     filter (\<lambda>m. m_workspace_id m = workspaceId \<and> m_user_id m = userId) (members s)"

text \<open>The member rows that make the caller an admin of the workspace.\<close>

definition admin_rows :: "store \<Rightarrow> string \<Rightarrow> string \<Rightarrow> member list" where
  "admin_rows s workspaceId userId =
     filter (\<lambda>m. m_role m = MemberRole_ADMIN) (member_rows s workspaceId userId)"

text \<open>
  What an invite-code reset may do to a row of the workspaces table: the addressed row
  gets the new code (and the trigger's \<^verbatim>\<open>updated_at\<close>), any other row stays.
\<close>

definition reset_row :: "env \<Rightarrow> string \<Rightarrow> workspace \<Rightarrow> workspace" where
  "reset_row e workspaceId w =
     (if w_id w = workspaceId
      then w\<lparr>w_invite_code := generateInviteCode e, w_updated_at := now e\<rparr> else w)"

text \<open>
  The analytics aggregator as the specification words it (section 4.1): five
  predicates on a task, each counted over the tasks of the scope created in a calendar
  month.
\<close>

fun matches :: "metric \<Rightarrow> member \<Rightarrow> timestamp \<Rightarrow> task \<Rightarrow> bool" where
  "matches Total caller at t = True"
| "matches Assigned caller at t = (t_assignee_id t = m_id caller)"
| "matches Incomplete caller at t = (t_status t \<noteq> TaskStatus_DONE)"
| "matches Completed caller at t = (t_status t = TaskStatus_DONE)"
| "matches Overdue caller at t =
     (t_status t \<noteq> TaskStatus_DONE \<and> (case t_due_date t of None \<Rightarrow> False | Some d \<Rightarrow> d < at))"

fun month_start :: "env \<Rightarrow> month \<Rightarrow> timestamp" where
  "month_start e ThisMonth = startOfMonth e (now e)"
| "month_start e LastMonth = startOfMonth e (subMonths e (now e) 1)"

fun month_end :: "env \<Rightarrow> month \<Rightarrow> timestamp" where
  "month_end e ThisMonth = endOfMonth e (now e)"
| "month_end e LastMonth = endOfMonth e (subMonths e (now e) 1)"

definition counted :: "env \<Rightarrow> task list \<Rightarrow> member \<Rightarrow> month \<Rightarrow> metric \<Rightarrow> task list" where
  "counted e scoped caller mo me =
     filter (\<lambda>t. matches me caller (now e) t \<and>
                 month_start e mo \<le> t_created_at t \<and> t_created_at t \<le> month_end e mo) scoped"

text \<open>The count of a month and a predicate; absent when its query failed.\<close>

definition month_count :: "env \<Rightarrow> task list \<Rightarrow> member \<Rightarrow> month \<Rightarrow> metric \<Rightarrow> nat option" where
  "month_count e scoped caller mo me =
     (case faults e (CountTasks mo me) of
        Some msg \<Rightarrow> None
      | None \<Rightarrow> Some (length (counted e scoped caller mo me)))"

text \<open>The \<^verbatim>\<open>count\<close> and \<^verbatim>\<open>difference\<close> fields of a response, by predicate.\<close>

fun count_of :: "analytics \<Rightarrow> metric \<Rightarrow> int" where
  "count_of a Total = taskCount a"
| "count_of a Assigned = assignedTaskCount a"
| "count_of a Incomplete = incompleteTaskCount a"
| "count_of a Completed = completedTaskCount a"
| "count_of a Overdue = overdueTaskCount a"

fun difference_of :: "analytics \<Rightarrow> metric \<Rightarrow> int" where
  "difference_of a Total = taskDifference a"
| "difference_of a Assigned = assignedTaskDifference a"
| "difference_of a Incomplete = incompleteTaskDifference a"
| "difference_of a Completed = completedTaskDifference a"
| "difference_of a Overdue = overdueTaskDifference a"

section \<open>Example data\<close>

text \<open>
  A store with one workspace, its admin alice and member bob, and one project. One
  unfinished task past its due date was created this month, an open and a finished
  task last month; \<open>done_task\<close> is a further task, finished but past its due date.
  The example calendar has months of 100 time units; the clock stands at 250, in the
  month from 200 to 299.
\<close>

definition acme :: workspace where
  "acme = \<lparr>w_id = ''W'', w_name = ''Acme'', w_user_id = ''alice'', w_image_id = None,
           w_invite_code = ''AB12CD'', w_created_at = 10, w_updated_at = 10\<rparr>"

definition alice :: member where
  "alice = \<lparr>m_id = ''m1'', m_user_id = ''alice'', m_workspace_id = ''W'',
            m_role = ''ADMIN'', m_created_at = 10, m_updated_at = 10\<rparr>"

definition bob :: member where
  "bob = \<lparr>m_id = ''m2'', m_user_id = ''bob'', m_workspace_id = ''W'',
          m_role = ''MEMBER'', m_created_at = 20, m_updated_at = 20\<rparr>"

definition roadmap :: project where
  "roadmap = \<lparr>p_id = ''P'', p_name = ''Roadmap'', p_description = None,
              p_workspace_id = ''W'', p_image_id = None,
              p_created_at = 30, p_updated_at = 30\<rparr>"

definition late_task :: task where
  "late_task = \<lparr>t_id = ''t1'', t_name = ''Write report'', t_description = None,
                t_status = ''TODO'', t_workspace_id = ''W'', t_project_id = ''P'',
                t_assignee_id = ''m1'', t_due_date = Some 240, t_position = 1000,
                t_created_at = 210, t_updated_at = 210\<rparr>"

definition done_task :: task where
  "done_task = \<lparr>t_id = ''t2'', t_name = ''Ship release'', t_description = None,
                t_status = ''DONE'', t_workspace_id = ''W'', t_project_id = ''P'',
                t_assignee_id = ''m2'', t_due_date = Some 249, t_position = 2000,
                t_created_at = 220, t_updated_at = 230\<rparr>"

definition old_open_task :: task where
  "old_open_task = \<lparr>t_id = ''t3'', t_name = ''Plan offsite'', t_description = None,
                    t_status = ''BACKLOG'', t_workspace_id = ''W'', t_project_id = ''P'',
                    t_assignee_id = ''m2'', t_due_date = None, t_position = 3000,
                    t_created_at = 150, t_updated_at = 150\<rparr>"

definition old_done_task :: task where
  "old_done_task = \<lparr>t_id = ''t4'', t_name = ''Hire designer'', t_description = None,
                    t_status = ''DONE'', t_workspace_id = ''W'', t_project_id = ''P'',
                    t_assignee_id = ''m2'', t_due_date = Some 190, t_position = 4000,
                    t_created_at = 160, t_updated_at = 180\<rparr>"

definition store0 :: store where
  "store0 = \<lparr>workspaces = [acme], projects = [roadmap],
             tasks = [late_task, old_open_task, old_done_task],
             members = [alice, bob], images = []\<rparr>"

definition env0 :: env where
  "env0 = \<lparr>now = 250, faults = (\<lambda>c. None), generated_id = (\<lambda>c. ''fresh''),
           randomUUID = ''uuid'', generateInviteCode = ''ZZ99ZZ'',
           getPublicUrl = (\<lambda>k. ''https://cdn.example/'' @ k),
           startOfMonth = (\<lambda>t. t div 100 * 100),
           endOfMonth = (\<lambda>t. t div 100 * 100 + 99),
           subMonths = (\<lambda>t n. t - 100 * int n)\<rparr>"

text \<open>The same environment with the membership lookup failing.\<close>

definition env_lookup_down :: env where
  "env_lookup_down = env0\<lparr>faults := (\<lambda>c. if c = GetMember then Some ''fetch failed'' else None)\<rparr>"

text \<open>The same environment with the insert into the members table failing.\<close>

definition env_insert_down :: env where
  "env_insert_down =
     env0\<lparr>faults := (\<lambda>c. if c = InsertMember then Some ''connection lost'' else None)\<rparr>"

section \<open>The authorization gate: facts\<close>

lemma member_rows_eq:
  "eq m_user_id user (eq m_workspace_id workspaceId (members s)) = member_rows s workspaceId user"
  by (simp add: eq_def member_rows_def)

lemma single_Inr_iff: "single rows = Inr r \<longleftrightarrow> rows = [r]"
  by (cases rows rule: single.cases) auto

text \<open>\<open>getMember\<close> returns a member exactly when the query answers and one row matches.\<close>

lemma getMember_Some_iff:
  "getMember e s workspaceId user = Some m \<longleftrightarrow>
     faults e GetMember = None \<and> member_rows s workspaceId user = [m]"
  by (auto simp: getMember_def select_single_def member_rows_eq single_Inr_iff
           split: option.splits sum.splits)

lemma getMember_None_iff:
  "getMember e s workspaceId user = None \<longleftrightarrow>
     faults e GetMember \<noteq> None \<or> length (member_rows s workspaceId user) \<noteq> 1"
proof (cases "getMember e s workspaceId user")
  case None
  have "\<not> (faults e GetMember = None \<and> length (member_rows s workspaceId user) = 1)"
  proof
    assume a: "faults e GetMember = None \<and> length (member_rows s workspaceId user) = 1"
    then obtain m where "member_rows s workspaceId user = [m]"
      by (cases "member_rows s workspaceId user") auto
    with a have "getMember e s workspaceId user = Some m"
      by (simp add: getMember_Some_iff)
    with None show False by simp
  qed
  with None show ?thesis by auto
next
  case (Some m)
  then show ?thesis by (auto simp: getMember_Some_iff)
qed

text \<open>The handlers that reject a caller for whom \<open>getMember\<close> returns \<^verbatim>\<open>null\<close>.\<close>

lemma gate_closed:
  assumes "getMember e s workspaceId user = None"
  shows "workspaces_get e s user workspaceId = unauthorized s [GetMember]"
    and "workspaces_patch e s user workspaceId name img = unauthorized s [GetMember]"
    and "workspaces_delete e s user workspaceId = unauthorized s [GetMember]"
    and "workspaces_resetInviteCode e s user workspaceId = unauthorized s [GetMember]"
    and "workspaces_analytics e s user workspaceId = unauthorized s [GetMember]"
    and "projects_post e s user pname img workspaceId = unauthorized s [GetMember]"
    and "projects_list e s user workspaceId = unauthorized s [GetMember]"
  using assms
  by (simp_all add: workspaces_get_def workspaces_patch_def workspaces_delete_def
        workspaces_resetInviteCode_def workspaces_analytics_def projects_post_def
        projects_list_def)

text \<open>The handlers addressed by a project resolve the project first.\<close>

lemma project_gate_closed:
  assumes "select_single e SelectProject (eq p_id projectId (projects s)) = Inr p"
    and "getMember e s (p_workspace_id p) user = None"
  shows "projects_get e s user projectId = unauthorized s [SelectProject, GetMember]"
    and "projects_patch e s user projectId name img = unauthorized s [SelectProject, GetMember]"
    and "projects_delete e s user projectId = unauthorized s [SelectProject, GetMember]"
    and "projects_analytics e s user projectId = unauthorized s [SelectProject, GetMember]"
  using assms
  by (simp_all add: projects_get_def projects_patch_def projects_delete_def
        projects_analytics_def)

lemma admin_gate_closed:
  assumes "getMember e s workspaceId user = Some m" and "m_role m \<noteq> MemberRole_ADMIN"
  shows "workspaces_patch e s user workspaceId name img = unauthorized s [GetMember]"
    and "workspaces_delete e s user workspaceId = unauthorized s [GetMember]"
    and "workspaces_resetInviteCode e s user workspaceId = unauthorized s [GetMember]"
  using assms
  by (simp_all add: workspaces_patch_def workspaces_delete_def workspaces_resetInviteCode_def)

section \<open>C1: callers without a member row\<close>

text \<open>
  C1, as stated, fails: \<^verbatim>\<open>GET /workspaces/:workspaceId/info\<close> performs no membership
  lookup. carol has no member row in workspace W, and the handler answers with status
  200 and the workspace's id and name, after the one query on the workspaces table.
\<close>

theorem info_answers_non_member:
  "member_rows store0 ''W'' ''carol'' = []
   \<and> reply (workspaces_info env0 store0 ''W'')
       = \<lparr>status = 200, body = Data (PInfo ''W'' ''Acme'')\<rparr>
   \<and> trace (workspaces_info env0 store0 ''W'') = [SelectWorkspace]"
  by (simp add: member_rows_def store0_def alice_def bob_def workspaces_info_def
        select_single_def env0_def eq_def acme_def json_data_def)

text \<open>
  C1, amended: for every caller without a member row for the workspace, each handler
  addressed by a workspace id, other than \<^verbatim>\<open>GET /:workspaceId/info\<close> and
  \<^verbatim>\<open>POST /:workspaceId/join\<close>, answers 401 with the error \<^verbatim>\<open>Unauthorized.\<close>; the
  membership lookup is the only call it makes, and the store is left as it was. The
  handlers are \<^verbatim>\<open>GET\<close>, \<^verbatim>\<open>PATCH\<close> and \<^verbatim>\<open>DELETE /workspaces/:workspaceId\<close>,
  \<^verbatim>\<open>resetInviteCode\<close>, the workspace analytics, \<^verbatim>\<open>POST /projects\<close> and
  \<^verbatim>\<open>GET /projects?workspaceId=\<close>.
\<close>

theorem non_member_unauthorized:
  assumes "member_rows s workspaceId user = []"
  shows "workspaces_get e s user workspaceId = unauthorized s [GetMember]
       \<and> workspaces_patch e s user workspaceId name img = unauthorized s [GetMember]
       \<and> workspaces_delete e s user workspaceId = unauthorized s [GetMember]
       \<and> workspaces_resetInviteCode e s user workspaceId = unauthorized s [GetMember]
       \<and> workspaces_analytics e s user workspaceId = unauthorized s [GetMember]
       \<and> projects_post e s user pname img workspaceId = unauthorized s [GetMember]
       \<and> projects_list e s user workspaceId = unauthorized s [GetMember]"
proof -
  from assms have "getMember e s workspaceId user = None"
    by (simp add: getMember_None_iff)
  then show ?thesis by (simp add: gate_closed)
qed

theorem non_member_unauthorized_witness:
  "member_rows store0 ''W'' ''carol'' = []
   \<and> workspaces_get env0 store0 ''carol'' ''W'' = unauthorized store0 [GetMember]
   \<and> workspaces_analytics env0 store0 ''carol'' ''W'' = unauthorized store0 [GetMember]"
proof -
  have h: "member_rows store0 ''W'' ''carol'' = []"
    by (simp add: member_rows_def store0_def alice_def bob_def)
  from non_member_unauthorized [OF h] h show ?thesis by simp
qed

section \<open>C5: the admin gate\<close>

text \<open>
  C5: \<^verbatim>\<open>PATCH /workspaces/:workspaceId\<close>, \<^verbatim>\<open>DELETE /workspaces/:workspaceId\<close> and
  \<^verbatim>\<open>POST /workspaces/:workspaceId/resetInviteCode\<close> answer 401 \<^verbatim>\<open>Unauthorized.\<close>, after
  the membership lookup alone and with the store as it was, for every caller who has no
  member row with role admin in the workspace. Whenever one of them changes the store,
  the lookup returned a member whose role is admin.
\<close>

theorem admin_gate:
  "(admin_rows s workspaceId user = [] \<longrightarrow>
      workspaces_patch e s user workspaceId name img = unauthorized s [GetMember]
    \<and> workspaces_delete e s user workspaceId = unauthorized s [GetMember]
    \<and> workspaces_resetInviteCode e s user workspaceId = unauthorized s [GetMember])
   \<and> (final (workspaces_patch e s user workspaceId name img) \<noteq> s
       \<or> final (workspaces_delete e s user workspaceId) \<noteq> s
       \<or> final (workspaces_resetInviteCode e s user workspaceId) \<noteq> s \<longrightarrow>
      (\<exists>m. getMember e s workspaceId user = Some m \<and> m_role m = MemberRole_ADMIN))"
proof (cases "getMember e s workspaceId user")
  case None
  then show ?thesis by (simp add: gate_closed unauthorized_def)
next
  case (Some m)
  show ?thesis
  proof (cases "m_role m = MemberRole_ADMIN")
    case True
    from Some have "m \<in> set (member_rows s workspaceId user)"
      by (simp add: getMember_Some_iff)
    with True have "admin_rows s workspaceId user \<noteq> []"
      by (auto simp: admin_rows_def filter_empty_conv)
    with Some True show ?thesis by simp
  next
    case False
    with Some show ?thesis by (simp add: admin_gate_closed unauthorized_def)
  qed
qed

theorem admin_gate_witness:
  "admin_rows store0 ''W'' ''bob'' = []
   \<and> workspaces_patch env0 store0 ''bob'' ''W'' (Some ''Mine'') Undefined
       = unauthorized store0 [GetMember]
   \<and> workspaces_delete env0 store0 ''bob'' ''W'' = unauthorized store0 [GetMember]
   \<and> workspaces_resetInviteCode env0 store0 ''bob'' ''W'' = unauthorized store0 [GetMember]
   \<and> final (workspaces_resetInviteCode env0 store0 ''alice'' ''W'') \<noteq> store0
   \<and> (\<exists>m. getMember env0 store0 ''W'' ''alice'' = Some m \<and> m_role m = MemberRole_ADMIN)"
proof -
  have h: "admin_rows store0 ''W'' ''bob'' = []"
    by (simp add: admin_rows_def member_rows_def store0_def alice_def bob_def
          MemberRole_ADMIN_def)
  have "getMember env0 store0 ''W'' ''alice'' = Some alice"
    by (simp add: getMember_Some_iff member_rows_def store0_def alice_def bob_def env0_def)
  then have "workspaces (final (workspaces_resetInviteCode env0 store0 ''alice'' ''W''))
             \<noteq> workspaces store0"
    by (simp add: workspaces_resetInviteCode_def alice_def MemberRole_ADMIN_def
          update_workspace_def env0_def store0_def acme_def eq_def neq_def
          apply_workspace_update_def)
  then have c: "final (workspaces_resetInviteCode env0 store0 ''alice'' ''W'') \<noteq> store0"
    by auto
  from admin_gate [of store0 "''W''" "''bob''" env0 "Some ''Mine''" Undefined] h
       admin_gate [of store0 "''W''" "''alice''" env0] c
  show ?thesis by simp
qed

section \<open>C9: a failed membership lookup\<close>

text \<open>
  C9, as stated, fails for \<^verbatim>\<open>POST /workspaces/:workspaceId/join\<close>, which calls
  \<open>getMember\<close> too: bob is a member of W, his lookup fails, the handler takes him for
  a non-member, goes on to the insert, and answers 500 with the message of the unique
  constraint.
\<close>

theorem join_lookup_failure_500:
  "member_rows store0 ''W'' ''bob'' = [bob]
   \<and> faults env_lookup_down GetMember = Some ''fetch failed''
   \<and> getMember env_lookup_down store0 ''W'' ''bob'' = None
   \<and> status (reply (workspaces_join env_lookup_down store0 ''bob'' ''W'' ''AB12CD'')) = 500"
  by (simp add: member_rows_def store0_def alice_def bob_def acme_def env_lookup_down_def env0_def
        getMember_def select_single_def eq_def workspaces_join_def insert_member_def
        json_error_def MemberRole_MEMBER_def)

text \<open>
  C9, amended: \<open>getMember\<close> returns \<^verbatim>\<open>null\<close> whenever the query fails, be it by a
  backend error or because not exactly one row matches; then every handler that calls
  it, other than the join handler, answers 401 \<^verbatim>\<open>Unauthorized.\<close> and leaves the store
  as it was. The handlers addressed by a project do so once the project is resolved.
\<close>

theorem lookup_failure_unauthorized:
  assumes "faults e GetMember \<noteq> None \<or> length (member_rows s workspaceId user) \<noteq> 1"
  shows "getMember e s workspaceId user = None
       \<and> workspaces_get e s user workspaceId = unauthorized s [GetMember]
       \<and> workspaces_patch e s user workspaceId name img = unauthorized s [GetMember]
       \<and> workspaces_delete e s user workspaceId = unauthorized s [GetMember]
       \<and> workspaces_resetInviteCode e s user workspaceId = unauthorized s [GetMember]
       \<and> workspaces_analytics e s user workspaceId = unauthorized s [GetMember]
       \<and> projects_post e s user pname img workspaceId = unauthorized s [GetMember]
       \<and> projects_list e s user workspaceId = unauthorized s [GetMember]
       \<and> (select_single e SelectProject (eq p_id projectId (projects s)) = Inr p
            \<and> p_workspace_id p = workspaceId \<longrightarrow>
            projects_get e s user projectId = unauthorized s [SelectProject, GetMember]
          \<and> projects_patch e s user projectId name img = unauthorized s [SelectProject, GetMember]
          \<and> projects_delete e s user projectId = unauthorized s [SelectProject, GetMember]
          \<and> projects_analytics e s user projectId = unauthorized s [SelectProject, GetMember])"
proof -
  from assms have n: "getMember e s workspaceId user = None"
    by (simp add: getMember_None_iff)
  then show ?thesis by (auto simp: gate_closed project_gate_closed)
qed

theorem lookup_failure_unauthorized_witness:
  "faults env_lookup_down GetMember = Some ''fetch failed''
   \<and> member_rows store0 ''W'' ''alice'' = [alice]
   \<and> getMember env_lookup_down store0 ''W'' ''alice'' = None
   \<and> workspaces_get env_lookup_down store0 ''alice'' ''W'' = unauthorized store0 [GetMember]
   \<and> projects_get env_lookup_down store0 ''alice'' ''P''
       = unauthorized store0 [SelectProject, GetMember]"
proof -
  have f: "faults env_lookup_down GetMember = Some ''fetch failed''"
    by (simp add: env_lookup_down_def)
  then have h: "faults env_lookup_down GetMember \<noteq> None
                \<or> length (member_rows store0 ''W'' ''alice'') \<noteq> 1"
    by simp
  have rows: "member_rows store0 ''W'' ''alice'' = [alice]"
    by (simp add: member_rows_def store0_def alice_def bob_def)
  have p: "select_single env_lookup_down SelectProject (eq p_id ''P'' (projects store0))
             = Inr roadmap \<and> p_workspace_id roadmap = ''W''"
    by (simp add: select_single_def env_lookup_down_def env0_def eq_def store0_def roadmap_def)
  from lookup_failure_unauthorized [OF h, of _ _ _ "''P''" roadmap] f rows p
  show ?thesis by simp
qed

section \<open>C4: joining with a wrong invite code\<close>

text \<open>
  C4: when the submitted code differs from the invite code of the workspace, the join
  handler answers with an error (400 or 500), never reaches the insert into the members
  table, and leaves the store as it was.
\<close>

theorem wrong_code_no_member_row:
  assumes "\<forall>w \<in> set (workspaces s). w_id w = workspaceId \<longrightarrow> w_invite_code w \<noteq> code"
  shows "final (workspaces_join e s user workspaceId code) = s
       \<and> InsertMember \<notin> set (trace (workspaces_join e s user workspaceId code))
       \<and> (\<exists>msg. body (reply (workspaces_join e s user workspaceId code)) = Error msg)
       \<and> status (reply (workspaces_join e s user workspaceId code)) \<in> {400, 500}"
proof -
  have "w_invite_code w \<noteq> code"
    if "select_single e SelectWorkspace (eq w_id workspaceId (workspaces s)) = Inr w" for w
  proof -
    from that have "eq w_id workspaceId (workspaces s) = [w]"
      by (simp add: select_single_def single_Inr_iff split: option.splits)
    then have "w \<in> set (eq w_id workspaceId (workspaces s))" by simp
    then have "w \<in> set (workspaces s) \<and> w_id w = workspaceId" by (simp add: eq_def)
    with assms show ?thesis by blast
  qed
  then show ?thesis
    by (auto simp: workspaces_join_def json_error_def split: option.splits sum.splits)
qed

theorem wrong_code_no_member_row_witness:
  "final (workspaces_join env0 store0 ''carol'' ''W'' ''XXXXXX'') = store0
   \<and> InsertMember \<notin> set (trace (workspaces_join env0 store0 ''carol'' ''W'' ''XXXXXX''))
   \<and> status (reply (workspaces_join env0 store0 ''carol'' ''W'' ''XXXXXX'')) \<in> {400, 500}"
proof -
  have h: "\<forall>w \<in> set (workspaces store0). w_id w = ''W'' \<longrightarrow> w_invite_code w \<noteq> ''XXXXXX''"
    by (simp add: store0_def acme_def)
  from wrong_code_no_member_row [OF h, of env0 "''carol''"] show ?thesis
    by blast
qed

section \<open>C3: joining once\<close>

text \<open>
  C3: with the backend answering, a caller without a member row who submits the
  invite code of the workspace gets the workspace back, and one member row with role
  member is added, which is then the caller's only row in the workspace. In every
  store where the caller has one member row in the workspace, a join by that user, with
  any code, answers \<^verbatim>\<open>Already a member.\<close> and leaves the store as it is.
\<close>

theorem join_once:
  assumes ok: "faults e GetMember = None" "faults e SelectWorkspace = None"
              "faults e InsertMember = None"
    and ws: "eq w_id workspaceId (workspaces s) = [w]"
    and code: "w_invite_code w = code"
    and non_member: "member_rows s workspaceId user = []"
    and fresh: "generated_id e InsertMember \<notin> set (map m_id (members s))"
    and ok': "faults e' GetMember = None"
  shows "reply (workspaces_join e s user workspaceId code) = json_data (PWorkspace w)
       \<and> final (workspaces_join e s user workspaceId code)
           = s\<lparr>members := members s @
                 [\<lparr>m_id = generated_id e InsertMember, m_user_id = user,
                   m_workspace_id = workspaceId, m_role = MemberRole_MEMBER,
                   m_created_at = now e, m_updated_at = now e\<rparr>]\<rparr>
       \<and> member_rows (final (workspaces_join e s user workspaceId code)) workspaceId user
           = [\<lparr>m_id = generated_id e InsertMember, m_user_id = user,
               m_workspace_id = workspaceId, m_role = MemberRole_MEMBER,
               m_created_at = now e, m_updated_at = now e\<rparr>]
       \<and> (length (member_rows s' workspaceId user) = 1 \<longrightarrow>
            workspaces_join e' s' user workspaceId code'
              = \<lparr>reply = json_error ''Already a member.'' 400, final = s',
                 trace = [GetMember]\<rparr>)"
proof -
  let ?row = "\<lparr>m_id = generated_id e InsertMember, m_user_id = user,
                m_workspace_id = workspaceId, m_role = MemberRole_MEMBER,
                m_created_at = now e, m_updated_at = now e\<rparr>"
  let ?s' = "s\<lparr>members := members s @ [?row]\<rparr>"
  from non_member ok have none: "getMember e s workspaceId user = None"
    by (simp add: getMember_None_iff)
  from ws ok have sel: "select_single e SelectWorkspace (eq w_id workspaceId (workspaces s)) = Inr w"
    by (simp add: select_single_def)
  from ws have "w \<in> set (eq w_id workspaceId (workspaces s))" by simp
  then have "workspaceId \<in> set (map w_id (workspaces s))"
    by (auto simp: eq_def)
  with ok fresh non_member
  have ins: "insert_member e s user workspaceId MemberRole_MEMBER = Inr ?s'"
    by (simp add: insert_member_def member_rows_eq Let_def)
  from none sel code ins
  have first: "workspaces_join e s user workspaceId code
      = \<lparr>reply = json_data (PWorkspace w), final = ?s',
         trace = [GetMember, SelectWorkspace, InsertMember]\<rparr>"
    by (simp add: workspaces_join_def)
  from non_member have rows: "member_rows ?s' workspaceId user = [?row]"
    by (simp add: member_rows_def)
  have again: "workspaces_join e' s' user workspaceId code'
      = \<lparr>reply = json_error ''Already a member.'' 400, final = s', trace = [GetMember]\<rparr>"
    if "length (member_rows s' workspaceId user) = 1"
  proof -
    from that ok' have "getMember e' s' workspaceId user \<noteq> None"
      by (simp add: getMember_None_iff)
    then show ?thesis
      by (auto simp: workspaces_join_def)
  qed
  from first rows again show ?thesis by simp
qed

theorem join_once_witness:
  "eq w_id ''W'' (workspaces store0) = [acme]
   \<and> w_invite_code acme = ''AB12CD''
   \<and> member_rows store0 ''W'' ''carol'' = []
   \<and> reply (workspaces_join env0 store0 ''carol'' ''W'' ''AB12CD'') = json_data (PWorkspace acme)
   \<and> member_rows (final (workspaces_join env0 store0 ''carol'' ''W'' ''AB12CD'')) ''W'' ''carol''
       = [\<lparr>m_id = ''fresh'', m_user_id = ''carol'', m_workspace_id = ''W'',
           m_role = ''MEMBER'', m_created_at = 250, m_updated_at = 250\<rparr>]
   \<and> reply (workspaces_join env0 (final (workspaces_join env0 store0 ''carol'' ''W'' ''AB12CD''))
              ''carol'' ''W'' ''XXXXXX'')
       = \<lparr>status = 400, body = Error ''Already a member.''\<rparr>"
proof -
  let ?after = "final (workspaces_join env0 store0 ''carol'' ''W'' ''AB12CD'')"
  have ok: "faults env0 GetMember = None" "faults env0 SelectWorkspace = None"
           "faults env0 InsertMember = None"
    by (simp_all add: env0_def)
  have ws: "eq w_id ''W'' (workspaces store0) = [acme]"
    by (simp add: eq_def store0_def acme_def)
  have code: "w_invite_code acme = ''AB12CD''"
    by (simp add: acme_def)
  have non_member: "member_rows store0 ''W'' ''carol'' = []"
    by (simp add: member_rows_def store0_def alice_def bob_def)
  have fresh: "generated_id env0 InsertMember \<notin> set (map m_id (members store0))"
    by (simp add: env0_def store0_def alice_def bob_def)
  note j = join_once [OF ok ws code non_member fresh ok(1), of ?after "''XXXXXX''"]
  from j have first: "reply (workspaces_join env0 store0 ''carol'' ''W'' ''AB12CD'')
                      = json_data (PWorkspace acme)"
    by blast
  from j have rows: "member_rows ?after ''W'' ''carol''
      = [\<lparr>m_id = generated_id env0 InsertMember, m_user_id = ''carol'',
          m_workspace_id = ''W'', m_role = MemberRole_MEMBER,
          m_created_at = now env0, m_updated_at = now env0\<rparr>]"
    by blast
  then have one: "length (member_rows ?after ''W'' ''carol'') = 1"
    by simp
  from j one have "workspaces_join env0 ?after ''carol'' ''W'' ''XXXXXX''
       = \<lparr>reply = json_error ''Already a member.'' 400, final = ?after, trace = [GetMember]\<rparr>"
    by blast
  then have again: "reply (workspaces_join env0 ?after ''carol'' ''W'' ''XXXXXX'')
       = json_error ''Already a member.'' 400"
    by simp
  from rows have rows':
    "member_rows ?after ''W'' ''carol''
       = [\<lparr>m_id = ''fresh'', m_user_id = ''carol'', m_workspace_id = ''W'',
           m_role = ''MEMBER'', m_created_at = 250, m_updated_at = 250\<rparr>]"
    by (simp add: env0_def MemberRole_MEMBER_def)
  from first rows' again ws code non_member show ?thesis
    by (simp add: json_error_def)
qed

section \<open>C8: no compensation in workspace creation\<close>

text \<open>
  C8: in \<^verbatim>\<open>POST /workspaces\<close>, when the workspace insert succeeds and the insert of the
  creator's member row fails, the handler answers 500 with the error's message; the new
  workspace row stays in the table, no member row is added, and no member row refers to
  the new workspace.
\<close>

theorem post_orphaned_workspace:
  assumes up: "\<forall>fname ftype. img = File fname ftype \<longrightarrow>
                 faults e StorageUpload = None \<and> fileName e fname \<notin> set (images s)"
    and ok: "faults e InsertWorkspace = None"
    and fresh: "generated_id e InsertWorkspace \<notin> set (map w_id (workspaces s))"
    and code: "generateInviteCode e \<notin> set (map w_invite_code (workspaces s))"
    and fk: "set (map m_workspace_id (members s)) \<subseteq> set (map w_id (workspaces s))"
    and down: "faults e InsertMember = Some msg"
  shows "reply (workspaces_post e s user name img) = json_error msg 500
       \<and> workspaces (final (workspaces_post e s user name img))
           = workspaces s @
             [\<lparr>w_id = generated_id e InsertWorkspace, w_name = name, w_user_id = user,
               w_image_id = (case img of File fname ftype \<Rightarrow> Some (fileName e fname)
                                       | Text v \<Rightarrow> Some v | Undefined \<Rightarrow> None),
               w_invite_code = generateInviteCode e,
               w_created_at = now e, w_updated_at = now e\<rparr>]
       \<and> members (final (workspaces_post e s user name img)) = members s
       \<and> eq m_workspace_id (generated_id e InsertWorkspace)
            (members (final (workspaces_post e s user name img))) = []"
proof -
  let ?image_id = "case img of File fname ftype \<Rightarrow> Some (fileName e fname)
                             | Text v \<Rightarrow> Some v | Undefined \<Rightarrow> None"
  let ?row = "\<lparr>w_id = generated_id e InsertWorkspace, w_name = name, w_user_id = user,
                w_image_id = ?image_id, w_invite_code = generateInviteCode e,
                w_created_at = now e, w_updated_at = now e\<rparr>"
  have orphan: "eq m_workspace_id (generated_id e InsertWorkspace) (members s) = []"
  proof -
    have "m_workspace_id m \<noteq> generated_id e InsertWorkspace" if "m \<in> set (members s)" for m
    proof
      assume "m_workspace_id m = generated_id e InsertWorkspace"
      with that have "generated_id e InsertWorkspace \<in> set (map m_workspace_id (members s))"
        by force
      with fk fresh show False by blast
    qed
    then show ?thesis by (simp add: eq_def filter_empty_conv)
  qed
  have ins: "insert_workspace e s1 name user ?image_id (generateInviteCode e)
               = Inr (?row, s1\<lparr>workspaces := workspaces s1 @ [?row]\<rparr>)"
    if "workspaces s1 = workspaces s" for s1
    using that ok fresh code by (simp add: insert_workspace_def Let_def)
  have mem: "insert_member e s2 user (generated_id e InsertWorkspace) MemberRole_ADMIN = Inl msg"
    for s2
    using down by (simp add: insert_member_def)
  show ?thesis
  proof (cases img)
    case (File fname ftype)
    with up have "faults e StorageUpload = None" "fileName e fname \<notin> set (images s)" by auto
    then have upl: "storage_upload e s (fileName e fname)
                = Inr (fileName e fname, s\<lparr>images := images s @ [fileName e fname]\<rparr>)"
      by (simp add: storage_upload_def)
    have "insert_workspace e (s\<lparr>images := images s @ [fileName e fname]\<rparr>) name user
            (Some (fileName e fname)) (generateInviteCode e)
          = Inr (?row, s\<lparr>images := images s @ [fileName e fname],
                          workspaces := workspaces s @ [?row]\<rparr>)"
      using ins [of "s\<lparr>images := images s @ [fileName e fname]\<rparr>"] File by simp
    with File upl mem orphan show ?thesis
      by (simp add: workspaces_post_def)
  next
    case (Text v)
    with ins [of s] mem orphan show ?thesis
      by (simp add: workspaces_post_def)
  next
    case Undefined
    with ins [of s] mem orphan show ?thesis
      by (simp add: workspaces_post_def)
  qed
qed

theorem post_orphaned_workspace_witness:
  "reply (workspaces_post env_insert_down store0 ''carol'' ''Beta'' (File ''logo.png'' ''image/png''))
     = \<lparr>status = 500, body = Error ''connection lost''\<rparr>
   \<and> workspaces (final (workspaces_post env_insert_down store0 ''carol'' ''Beta''
                          (File ''logo.png'' ''image/png'')))
       = [acme, \<lparr>w_id = ''fresh'', w_name = ''Beta'', w_user_id = ''carol'',
                 w_image_id = Some ''uuid.png'', w_invite_code = ''ZZ99ZZ'',
                 w_created_at = 250, w_updated_at = 250\<rparr>]
   \<and> members (final (workspaces_post env_insert_down store0 ''carol'' ''Beta''
                       (File ''logo.png'' ''image/png''))) = [alice, bob]"
proof -
  have up: "\<forall>fname ftype. File ''logo.png'' ''image/png'' = File fname ftype \<longrightarrow>
              faults env_insert_down StorageUpload = None
              \<and> fileName env_insert_down fname \<notin> set (images store0)"
    by (simp add: env_insert_down_def env0_def store0_def)
  have ok: "faults env_insert_down InsertWorkspace = None"
    by (simp add: env_insert_down_def env0_def)
  have fresh: "generated_id env_insert_down InsertWorkspace \<notin> set (map w_id (workspaces store0))"
    by (simp add: env_insert_down_def env0_def store0_def acme_def)
  have code: "generateInviteCode env_insert_down \<notin> set (map w_invite_code (workspaces store0))"
    by (simp add: env_insert_down_def env0_def store0_def acme_def)
  have fk: "set (map m_workspace_id (members store0)) \<subseteq> set (map w_id (workspaces store0))"
    by (simp add: store0_def acme_def alice_def bob_def)
  have down: "faults env_insert_down InsertMember = Some ''connection lost''"
    by (simp add: env_insert_down_def)
  from post_orphaned_workspace [OF up ok fresh code fk down, of "''carol''" "''Beta''"]
  show ?thesis
    by (simp add: json_error_def store0_def env_insert_down_def env0_def fileName_def fileExt_def)
qed

section \<open>C10: the frame of an invite-code reset\<close>

text \<open>
  C10: a successful \<^verbatim>\<open>POST /workspaces/:workspaceId/resetInviteCode\<close> changes the store
  only in the workspaces table, and there only by \<open>reset_row\<close>: the name, owner and
  image of every workspace are what they were, and the rows of the other workspaces
  are untouched.
\<close>

theorem reset_frame:
  assumes "status (reply (workspaces_resetInviteCode e s user workspaceId)) = 200"
  shows "final (workspaces_resetInviteCode e s user workspaceId)
           = s\<lparr>workspaces := map (reset_row e workspaceId) (workspaces s)\<rparr>
       \<and> map w_name (workspaces (final (workspaces_resetInviteCode e s user workspaceId)))
           = map w_name (workspaces s)
       \<and> map w_user_id (workspaces (final (workspaces_resetInviteCode e s user workspaceId)))
           = map w_user_id (workspaces s)
       \<and> map w_image_id (workspaces (final (workspaces_resetInviteCode e s user workspaceId)))
           = map w_image_id (workspaces s)
       \<and> neq w_id workspaceId (workspaces (final (workspaces_resetInviteCode e s user workspaceId)))
           = neq w_id workspaceId (workspaces s)"
proof -
  have rows: "map (\<lambda>w. if w_id w = workspaceId
                        then apply_workspace_update e
                               \<lparr>set_name = None, set_image_id = None,
                                set_invite_code = Some (generateInviteCode e)\<rparr> w
                        else w) (workspaces s)
              = map (reset_row e workspaceId) (workspaces s)"
    by (simp add: reset_row_def apply_workspace_update_def)
  from assms have fin: "final (workspaces_resetInviteCode e s user workspaceId)
           = s\<lparr>workspaces := map (reset_row e workspaceId) (workspaces s)\<rparr>"
    unfolding workspaces_resetInviteCode_def update_workspace_def Let_def rows
    by (auto simp: unauthorized_def json_error_def json_data_def
             split: option.splits sum.splits if_splits)
  have "map w_name (map (reset_row e workspaceId) ws) = map w_name ws"
       "map w_user_id (map (reset_row e workspaceId) ws) = map w_user_id ws"
       "map w_image_id (map (reset_row e workspaceId) ws) = map w_image_id ws"
       "neq w_id workspaceId (map (reset_row e workspaceId) ws) = neq w_id workspaceId ws" for ws
    by (induction ws) (simp_all add: reset_row_def neq_def)
  with fin show ?thesis by simp
qed

theorem reset_frame_witness:
  "status (reply (workspaces_resetInviteCode env0 store0 ''alice'' ''W'')) = 200
   \<and> final (workspaces_resetInviteCode env0 store0 ''alice'' ''W'')
       = store0\<lparr>workspaces := [acme\<lparr>w_invite_code := ''ZZ99ZZ'', w_updated_at := 250\<rparr>]\<rparr>"
proof -
  have "getMember env0 store0 ''W'' ''alice'' = Some alice"
    by (simp add: getMember_Some_iff member_rows_def store0_def alice_def bob_def env0_def)
  then have h: "status (reply (workspaces_resetInviteCode env0 store0 ''alice'' ''W'')) = 200"
    by (simp add: workspaces_resetInviteCode_def alice_def MemberRole_ADMIN_def
          update_workspace_def env0_def store0_def acme_def eq_def neq_def
          apply_workspace_update_def json_data_def)
  from reset_frame [OF h] h show ?thesis
    by (simp add: reset_row_def store0_def acme_def env0_def)
qed

section \<open>The analytics aggregator: facts\<close>

text \<open>Each filter chain of the handlers selects the tasks the specification counts.\<close>

lemma query_counted:
  "task_query scoped (month_start e mo) (month_end e mo) = counted e scoped caller mo Total"
  "assigned_query scoped caller (month_start e mo) (month_end e mo)
     = counted e scoped caller mo Assigned"
  "incomplete_query scoped (month_start e mo) (month_end e mo)
     = counted e scoped caller mo Incomplete"
  "completed_query scoped (month_start e mo) (month_end e mo)
     = counted e scoped caller mo Completed"
  "overdue_query scoped (now e) (month_start e mo) (month_end e mo)
     = counted e scoped caller mo Overdue"
  by (auto simp: task_query_def assigned_query_def incomplete_query_def completed_query_def
        overdue_query_def counted_def eq_def neq_def gte_def lte_def lt_def
        intro!: filter_cong)

lemma count_month_count:
  "count e (CountTasks mo me) (counted e scoped caller mo me) = month_count e scoped caller mo me"
  by (simp add: count_def month_count_def)

lemma task_analytics_counts:
  "count_of (task_analytics e scoped caller) me
     = or_zero (month_count e scoped caller ThisMonth me)"
  "difference_of (task_analytics e scoped caller) me
     = count_of (task_analytics e scoped caller) me
       - or_zero (month_count e scoped caller LastMonth me)"
  using query_counted [where scoped = scoped and e = e and mo = ThisMonth and caller = caller]
        query_counted [where scoped = scoped and e = e and mo = LastMonth and caller = caller]
  by (cases me; simp add: task_analytics_def Let_def count_month_count)+

lemma overdue_is_filtered_incomplete:
  "overdue_query scoped at lo hi = lt t_due_date at (incomplete_query scoped lo hi)"
  by (auto simp: overdue_query_def incomplete_query_def lt_def lte_def gte_def neq_def
           intro!: filter_cong)

lemma getMember_tasks [simp]: "getMember e (s\<lparr>tasks := ts\<rparr>) workspaceId user = getMember e s workspaceId user"
  by (simp add: getMember_def)

lemma done_task_queries:
  assumes "t_status t = TaskStatus_DONE" and "lo \<le> t_created_at t" and "t_created_at t \<le> hi"
  shows "completed_query (scoped @ [t]) lo hi = completed_query scoped lo hi @ [t]"
    and "overdue_query (scoped @ [t]) at lo hi = overdue_query scoped at lo hi"
  using assms
  by (simp_all add: completed_query_def overdue_query_def eq_def neq_def gte_def lte_def lt_def)

text \<open>The example: alice's analytics of workspace W.\<close>

lemma getMember_alice: "getMember env0 store0 ''W'' ''alice'' = Some alice"
  by (simp add: getMember_Some_iff member_rows_def store0_def alice_def bob_def env0_def)

lemma alice_analytics:
  "task_analytics env0 (eq t_workspace_id ''W'' (tasks store0)) alice
     = \<lparr>taskCount = 1, taskDifference = - 1, assignedTaskCount = 1,
        assignedTaskDifference = 1, completedTaskCount = 0,
        completedTaskDifference = - 1, incompleteTaskCount = 1,
        incompleteTaskDifference = 0, overdueTaskCount = 1,
        overdueTaskDifference = 1\<rparr>"
  by (simp add: task_analytics_def Let_def count_def task_query_def assigned_query_def
        incomplete_query_def completed_query_def overdue_query_def eq_def neq_def gte_def
        lte_def lt_def TaskStatus_DONE_def store0_def env0_def alice_def late_task_def
        old_open_task_def old_done_task_def)

section \<open>C2: counts and differences\<close>

text \<open>
  C2: in every analytics response, of a workspace or of a project, and for each of the
  five predicates, the count is the count of this month and the difference is that
  count minus the count of last month, a count whose query gave \<^verbatim>\<open>null\<close> being taken
  as 0. In the example the difference of the total is 1 - 2 = -1.
\<close>

theorem analytics_difference:
  "(body (reply (workspaces_analytics e s user workspaceId)) = Data (PAnalytics a) \<longrightarrow>
      (\<exists>caller. getMember e s workspaceId user = Some caller \<and>
         (\<forall>me. count_of a me
                 = or_zero (month_count e (eq t_workspace_id workspaceId (tasks s))
                              caller ThisMonth me)
              \<and> difference_of a me
                 = count_of a me
                   - or_zero (month_count e (eq t_workspace_id workspaceId (tasks s))
                                caller LastMonth me))))
   \<and> (body (reply (projects_analytics e s user projectId)) = Data (PAnalytics a') \<longrightarrow>
      (\<exists>p caller. eq p_id projectId (projects s) = [p] \<and>
         getMember e s (p_workspace_id p) user = Some caller \<and>
         (\<forall>me. count_of a' me
                 = or_zero (month_count e (eq t_project_id projectId (tasks s))
                              caller ThisMonth me)
              \<and> difference_of a' me
                 = count_of a' me
                   - or_zero (month_count e (eq t_project_id projectId (tasks s))
                                caller LastMonth me))))"
proof (intro conjI impI)
  assume a: "body (reply (workspaces_analytics e s user workspaceId)) = Data (PAnalytics a)"
  then obtain caller where c: "getMember e s workspaceId user = Some caller"
    by (cases "getMember e s workspaceId user")
       (auto simp: workspaces_analytics_def unauthorized_def json_error_def)
  with a have "a = task_analytics e (eq t_workspace_id workspaceId (tasks s)) caller"
    by (simp add: workspaces_analytics_def json_data_def)
  with c show "\<exists>caller. getMember e s workspaceId user = Some caller \<and>
         (\<forall>me. count_of a me
                 = or_zero (month_count e (eq t_workspace_id workspaceId (tasks s))
                              caller ThisMonth me)
              \<and> difference_of a me
                 = count_of a me
                   - or_zero (month_count e (eq t_workspace_id workspaceId (tasks s))
                                caller LastMonth me))"
    by (simp add: task_analytics_counts)
next
  assume a: "body (reply (projects_analytics e s user projectId)) = Data (PAnalytics a')"
  then obtain p where p: "select_single e SelectProject (eq p_id projectId (projects s)) = Inr p"
    by (cases "select_single e SelectProject (eq p_id projectId (projects s))")
       (auto simp: projects_analytics_def json_error_def)
  then have rows: "eq p_id projectId (projects s) = [p]"
    by (simp add: select_single_def single_Inr_iff split: option.splits)
  from a p obtain caller where c: "getMember e s (p_workspace_id p) user = Some caller"
    by (cases "getMember e s (p_workspace_id p) user")
       (auto simp: projects_analytics_def unauthorized_def json_error_def)
  with a p have "a' = task_analytics e (eq t_project_id projectId (tasks s)) caller"
    by (simp add: projects_analytics_def json_data_def)
  with c rows show "\<exists>p caller. eq p_id projectId (projects s) = [p] \<and>
         getMember e s (p_workspace_id p) user = Some caller \<and>
         (\<forall>me. count_of a' me
                 = or_zero (month_count e (eq t_project_id projectId (tasks s))
                              caller ThisMonth me)
              \<and> difference_of a' me
                 = count_of a' me
                   - or_zero (month_count e (eq t_project_id projectId (tasks s))
                                caller LastMonth me))"
    by (simp add: task_analytics_counts)
qed

theorem analytics_difference_witness:
  "body (reply (workspaces_analytics env0 store0 ''alice'' ''W''))
     = Data (PAnalytics \<lparr>taskCount = 1, taskDifference = - 1, assignedTaskCount = 1,
        assignedTaskDifference = 1, completedTaskCount = 0,
        completedTaskDifference = - 1, incompleteTaskCount = 1,
        incompleteTaskDifference = 0, overdueTaskCount = 1,
        overdueTaskDifference = 1\<rparr>)
   \<and> or_zero (month_count env0 (eq t_workspace_id ''W'' (tasks store0)) alice ThisMonth Total) = 1
   \<and> or_zero (month_count env0 (eq t_workspace_id ''W'' (tasks store0)) alice LastMonth Total) = 2"
proof -
  let ?a = "\<lparr>taskCount = 1, taskDifference = - 1, assignedTaskCount = 1,
        assignedTaskDifference = 1, completedTaskCount = 0,
        completedTaskDifference = - 1, incompleteTaskCount = 1,
        incompleteTaskDifference = 0, overdueTaskCount = 1,
        overdueTaskDifference = 1\<rparr>"
  have h: "body (reply (workspaces_analytics env0 store0 ''alice'' ''W'')) = Data (PAnalytics ?a)"
    by (simp add: workspaces_analytics_def getMember_alice json_data_def alice_analytics)
  from analytics_difference [of env0 store0 "''alice''" "''W''" ?a] h
  have "\<forall>me. count_of ?a me
                 = or_zero (month_count env0 (eq t_workspace_id ''W'' (tasks store0))
                              alice ThisMonth me)
              \<and> difference_of ?a me
                 = count_of ?a me
                   - or_zero (month_count env0 (eq t_workspace_id ''W'' (tasks store0))
                                alice LastMonth me)"
    by (simp add: getMember_alice)
  then have "count_of ?a Total
                 = or_zero (month_count env0 (eq t_workspace_id ''W'' (tasks store0))
                              alice ThisMonth Total)
              \<and> difference_of ?a Total
                 = count_of ?a Total
                   - or_zero (month_count env0 (eq t_workspace_id ''W'' (tasks store0))
                                alice LastMonth Total)"
    by blast
  then have "or_zero (month_count env0 (eq t_workspace_id ''W'' (tasks store0))
                        alice ThisMonth Total) = 1
           \<and> or_zero (month_count env0 (eq t_workspace_id ''W'' (tasks store0))
                        alice LastMonth Total) = 2"
    by simp
  with h show ?thesis by blast
qed

section \<open>C6: overdue and incomplete\<close>

text \<open>
  C6, as stated, fails in the word strict: the one task of workspace W created this
  month is unfinished and past its due date, so the overdue tasks and the incomplete
  tasks of the month are the same tasks, and both counts are 1.
\<close>

theorem overdue_equals_incomplete:
  "overdue_query (eq t_workspace_id ''W'' (tasks store0)) (now env0)
       (month_start env0 ThisMonth) (month_end env0 ThisMonth) = [late_task]
   \<and> incomplete_query (eq t_workspace_id ''W'' (tasks store0))
       (month_start env0 ThisMonth) (month_end env0 ThisMonth) = [late_task]
   \<and> \<not> set (overdue_query (eq t_workspace_id ''W'' (tasks store0)) (now env0)
              (month_start env0 ThisMonth) (month_end env0 ThisMonth))
        \<subset> set (incomplete_query (eq t_workspace_id ''W'' (tasks store0))
              (month_start env0 ThisMonth) (month_end env0 ThisMonth))
   \<and> overdueTaskCount (task_analytics env0 (eq t_workspace_id ''W'' (tasks store0)) alice) = 1
   \<and> incompleteTaskCount (task_analytics env0 (eq t_workspace_id ''W'' (tasks store0)) alice) = 1"
proof -
  have o: "overdue_query (eq t_workspace_id ''W'' (tasks store0)) (now env0)
       (month_start env0 ThisMonth) (month_end env0 ThisMonth) = [late_task]"
    by (simp add: overdue_query_def eq_def neq_def gte_def lte_def lt_def TaskStatus_DONE_def
          store0_def env0_def late_task_def old_open_task_def old_done_task_def)
  have i: "incomplete_query (eq t_workspace_id ''W'' (tasks store0))
       (month_start env0 ThisMonth) (month_end env0 ThisMonth) = [late_task]"
    by (simp add: incomplete_query_def eq_def neq_def gte_def lte_def lt_def TaskStatus_DONE_def
          store0_def env0_def late_task_def old_open_task_def old_done_task_def)
  show ?thesis unfolding o i by (simp add: alice_analytics)
qed

text \<open>
  C6, amended: for every scope and every month, the tasks counted as overdue are a
  subset, not necessarily a strict one, of the tasks counted as incomplete over the
  same task set, so the overdue count never exceeds the incomplete count: every task
  counted as overdue satisfies the incomplete predicate (status other than done) and
  has a due date strictly before now. In a response the overdue count is at most the
  incomplete count whenever the incomplete count query gave a count.
\<close>

theorem overdue_within_incomplete:
  "set (overdue_query scoped at lo hi) \<subseteq> set (incomplete_query scoped lo hi)
   \<and> length (overdue_query scoped at lo hi) \<le> length (incomplete_query scoped lo hi)
   \<and> (\<forall>t \<in> set (overdue_query scoped at lo hi).
         t_status t \<noteq> TaskStatus_DONE \<and> (\<exists>d. t_due_date t = Some d \<and> d < at))
   \<and> (faults e (CountTasks ThisMonth Incomplete) = None \<longrightarrow>
         overdueTaskCount (task_analytics e scoped caller)
           \<le> incompleteTaskCount (task_analytics e scoped caller))"
proof (intro conjI)
  show "set (overdue_query scoped at lo hi) \<subseteq> set (incomplete_query scoped lo hi)"
    by (auto simp: overdue_is_filtered_incomplete lt_def)
  show len: "length (overdue_query scoped at lo hi) \<le> length (incomplete_query scoped lo hi)"
    for at lo hi
    by (simp add: overdue_is_filtered_incomplete lt_def)
  show "\<forall>t \<in> set (overdue_query scoped at lo hi).
         t_status t \<noteq> TaskStatus_DONE \<and> (\<exists>d. t_due_date t = Some d \<and> d < at)"
    by (auto simp: overdue_query_def lt_def lte_def gte_def neq_def split: option.splits)
  show "faults e (CountTasks ThisMonth Incomplete) = None \<longrightarrow>
         overdueTaskCount (task_analytics e scoped caller)
           \<le> incompleteTaskCount (task_analytics e scoped caller)"
    using len [of "now e" "startOfMonth e (now e)" "endOfMonth e (now e)"]
    by (simp add: task_analytics_def Let_def count_def split: option.splits)
qed

theorem overdue_within_incomplete_witness:
  "late_task \<in> set (overdue_query (eq t_workspace_id ''W'' (tasks store0)) (now env0)
       (month_start env0 ThisMonth) (month_end env0 ThisMonth))
   \<and> faults env0 (CountTasks ThisMonth Incomplete) = None
   \<and> late_task \<in> set (incomplete_query (eq t_workspace_id ''W'' (tasks store0))
       (month_start env0 ThisMonth) (month_end env0 ThisMonth))
   \<and> t_status late_task \<noteq> TaskStatus_DONE
   \<and> (\<exists>d. t_due_date late_task = Some d \<and> d < now env0)
   \<and> overdueTaskCount (task_analytics env0 (eq t_workspace_id ''W'' (tasks store0)) alice)
      \<le> incompleteTaskCount (task_analytics env0 (eq t_workspace_id ''W'' (tasks store0)) alice)"
proof -
  have o: "late_task \<in> set (overdue_query (eq t_workspace_id ''W'' (tasks store0)) (now env0)
       (month_start env0 ThisMonth) (month_end env0 ThisMonth))"
    by (simp add: overdue_query_def eq_def neq_def gte_def lte_def lt_def TaskStatus_DONE_def
          store0_def env0_def late_task_def old_open_task_def old_done_task_def)
  have f: "faults env0 (CountTasks ThisMonth Incomplete) = None"
    by (simp add: env0_def)
  from overdue_within_incomplete [of "eq t_workspace_id ''W'' (tasks store0)" "now env0" "month_start env0 ThisMonth"
             "month_end env0 ThisMonth" env0 alice] o f
  show ?thesis by blast
qed

section \<open>C7: a finished task past its due date\<close>

text \<open>
  C7: a task created this month, with status done and a due date strictly before now,
  adds one to \<^verbatim>\<open>completedTaskCount\<close> and nothing to \<^verbatim>\<open>overdueTaskCount\<close> of the
  workspace analytics (the completed count query answering).
\<close>

theorem done_task_completed_not_overdue:
  assumes finished: "t_status t = TaskStatus_DONE"
    and due: "t_due_date t = Some d" "d < now e"
    and created: "startOfMonth e (now e) \<le> t_created_at t" "t_created_at t \<le> endOfMonth e (now e)"
    and scope: "t_workspace_id t = workspaceId"
    and caller: "getMember e s workspaceId user = Some caller"
    and ok: "faults e (CountTasks ThisMonth Completed) = None"
  shows "\<exists>a a'. reply (workspaces_analytics e s user workspaceId) = json_data (PAnalytics a)
           \<and> reply (workspaces_analytics e (s\<lparr>tasks := tasks s @ [t]\<rparr>) user workspaceId)
               = json_data (PAnalytics a')
           \<and> completedTaskCount a' = completedTaskCount a + 1
           \<and> overdueTaskCount a' = overdueTaskCount a"
proof -
  let ?scoped = "eq t_workspace_id workspaceId (tasks s)"
  from scope have sc: "eq t_workspace_id workspaceId (tasks s @ [t]) = ?scoped @ [t]"
    by (simp add: eq_def)
  from finished created ok
  have "completedTaskCount (task_analytics e (?scoped @ [t]) caller)
          = completedTaskCount (task_analytics e ?scoped caller) + 1"
    and "overdueTaskCount (task_analytics e (?scoped @ [t]) caller)
          = overdueTaskCount (task_analytics e ?scoped caller)"
    by (simp_all add: task_analytics_def Let_def count_def done_task_queries
                 split: option.splits)
  with caller sc
  have "reply (workspaces_analytics e s user workspaceId)
          = json_data (PAnalytics (task_analytics e ?scoped caller))
        \<and> reply (workspaces_analytics e (s\<lparr>tasks := tasks s @ [t]\<rparr>) user workspaceId)
          = json_data (PAnalytics (task_analytics e (?scoped @ [t]) caller))
        \<and> completedTaskCount (task_analytics e (?scoped @ [t]) caller)
          = completedTaskCount (task_analytics e ?scoped caller) + 1
        \<and> overdueTaskCount (task_analytics e (?scoped @ [t]) caller)
          = overdueTaskCount (task_analytics e ?scoped caller)"
    by (simp add: workspaces_analytics_def)
  then show ?thesis by blast
qed

theorem done_task_completed_not_overdue_witness:
  "t_status done_task = TaskStatus_DONE \<and> t_due_date done_task = Some 249
   \<and> 249 < now env0
   \<and> startOfMonth env0 (now env0) \<le> t_created_at done_task
   \<and> t_created_at done_task \<le> endOfMonth env0 (now env0)
   \<and> completedTaskCount (task_analytics env0 (eq t_workspace_id ''W'' (tasks store0)) alice) = 0
   \<and> overdueTaskCount (task_analytics env0 (eq t_workspace_id ''W'' (tasks store0)) alice) = 1
   \<and> completedTaskCount
        (task_analytics env0 (eq t_workspace_id ''W'' (tasks store0 @ [done_task])) alice) = 1
   \<and> overdueTaskCount
        (task_analytics env0 (eq t_workspace_id ''W'' (tasks store0 @ [done_task])) alice) = 1"
proof -
  have finished: "t_status done_task = TaskStatus_DONE"
    by (simp add: done_task_def TaskStatus_DONE_def)
  have due: "t_due_date done_task = Some 249" "249 < now env0"
    by (simp_all add: done_task_def env0_def)
  have created: "startOfMonth env0 (now env0) \<le> t_created_at done_task"
                "t_created_at done_task \<le> endOfMonth env0 (now env0)"
    by (simp_all add: done_task_def env0_def)
  have scope: "t_workspace_id done_task = ''W''"
    by (simp add: done_task_def)
  note caller = getMember_alice
  have ok: "faults env0 (CountTasks ThisMonth Completed) = None"
    by (simp add: env0_def)
  have before: "completedTaskCount (task_analytics env0 (eq t_workspace_id ''W'' (tasks store0)) alice) = 0
              \<and> overdueTaskCount (task_analytics env0 (eq t_workspace_id ''W'' (tasks store0)) alice) = 1"
    by (simp add: alice_analytics)
  from done_task_completed_not_overdue [OF finished due created scope caller ok] caller before
  have "completedTaskCount
        (task_analytics env0 (eq t_workspace_id ''W'' (tasks store0 @ [done_task])) alice) = 1
   \<and> overdueTaskCount
        (task_analytics env0 (eq t_workspace_id ''W'' (tasks store0 @ [done_task])) alice) = 1"
    by (auto simp: workspaces_analytics_def json_data_def)
  with finished due created before show ?thesis by simp
qed

end
